theory Spec2Isabelle
  imports Complex_Main
begin

section \<open>Values and errors\<close>

text \<open>
  The sizing functions are written in Python and take untyped arguments. Every numeric
  parameter is first tested against \<^verbatim>\<open>None\<close> and then passed through \<^verbatim>\<open>float(...)\<close>.
  An argument is therefore one of: \<^verbatim>\<open>None\<close>; a value that \<^verbatim>\<open>float\<close> converts (its
  result is what the model keeps); any other object, on which \<^verbatim>\<open>float\<close> raises
  \<^verbatim>\<open>TypeError\<close> or \<^verbatim>\<open>ValueError\<close>.

  Python floats are modelled as \<^typ>\<open>real\<close>: rounding, infinities and NaN are outside
  the model. \<^verbatim>\<open>x ** y\<close> with a float exponent is only ever applied to a positive base
  in this code, where it is \<open>x powr y\<close>; \<^verbatim>\<open>x ** 2\<close> is \<open>x\<^sup>2\<close>.
\<close>

datatype pyval = PyNone | PyFloat real | PyNonNumeric

text \<open>\<^verbatim>\<open>float(v)\<close>: \<open>None\<close> stands for the raised \<^verbatim>\<open>TypeError\<close>/\<^verbatim>\<open>ValueError\<close>.\<close>

fun to_float :: "pyval \<Rightarrow> real option" where
  "to_float PyNone = None"
| "to_float (PyFloat x) = Some x"
| "to_float PyNonNumeric = None"

text \<open>String-valued parameters (orientation, head type): \<^verbatim>\<open>None\<close>, a \<^verbatim>\<open>str\<close>, or another object.\<close>

datatype pystr = StrNone | Str string | NotStr

text \<open>
  Every \<^verbatim>\<open>raise ValueError(f"...")\<close> of the source is one constructor, carrying the
  values its message interpolates. \<open>ZeroDivisionError\<close> is Python's own.
\<close>

datatype error =
    Required string
  | NotANumber string
  | Negative string real
  | NotPositive string real
  | UnexpectedAPI2000 real real
  | KNotAboveOne real
  | NoStandardOrifice real string real
  | OrientationRequired
  | OnlyVertical string
  | BadHeadType pystr
  | HeadTypeRequired
  | UnsupportedHeadType string
  | NotAnInteger string
  | BelowMinimum string int int
  | ThicknessTooLarge real real
  | CapacityExceeded real real
  | ShellHeightNegative
  | HeadRequired
  | KeyError string
  | ZeroDivisionError

section \<open>Fire heat load, API 2000 (fire/api2000.py)\<close>

definition heat_load_api2000 :: "pyval \<Rightarrow> pyval \<Rightarrow> error + real" where
  "heat_load_api2000 A_wetted_m2 P_design_barg =
    (if A_wetted_m2 = PyNone then Inl (Required ''Wetted area (A_wetted_m2)'')
     else case to_float A_wetted_m2 of
       None \<Rightarrow> Inl (NotANumber ''Wetted area'')
     | Some A \<Rightarrow>
        if A < 0 then Inl (Negative ''Wetted area'' A)
        else if A = 0 then Inr 0
        else if P_design_barg = PyNone then Inl (Required ''Design pressure (P_design_barg)'')
        else
          (case to_float P_design_barg of
             None \<Rightarrow> Inl (NotANumber ''Design pressure'')
           | Some P \<Rightarrow>
              if P > 1.034 then Inr (10800 * A)
              else if A < 18.6 then Inr (63150 * A)
              else if 18.6 \<le> A \<and> A < 93 then Inr (224200 * (A powr 0.566))
              else if 93 \<le> A \<and> A < 260 then Inr (630400 * (A powr 0.338))
              else if A \<ge> 260 \<and> P \<ge> 0.07 then Inr (43200 * (A powr 0.82))
              else if A \<ge> 260 \<and> P < 0.07 then Inr 4129700
              else Inl (UnexpectedAPI2000 A P)))"

section \<open>Evaporation rate (flow/evaporation.py)\<close>

definition evaporation_rate :: "pyval \<Rightarrow> pyval \<Rightarrow> error + real" where
  "evaporation_rate Q_dot_W h_fg_J_per_kg =
    (if Q_dot_W = PyNone then Inl (Required ''Heat load (Q_dot_W)'')
     else case to_float Q_dot_W of
       None \<Rightarrow> Inl (NotANumber ''Heat load'')
     | Some Q \<Rightarrow>
        if Q < 0 then Inl (Negative ''Heat load'' Q)
        else if Q = 0 then Inr 0
        else if h_fg_J_per_kg = PyNone
          then Inl (Required ''Enthalpy of vaporization (h_fg_J_per_kg)'')
        else
          (case to_float h_fg_J_per_kg of
             None \<Rightarrow> Inl (NotANumber ''Enthalpy of vaporization'')
           | Some h \<Rightarrow>
              if h \<le> 0 then Inl (NotPositive ''Enthalpy of vaporization'' h)
              else Inr (Q / h)))"

section \<open>Pressures and criticality (flow/pressures.py, sizing/prd.py)\<close>

definition validate_positive :: "pyval \<Rightarrow> string \<Rightarrow> error + real" where
  "validate_positive v name =
    (if v = PyNone then Inl (Required name)
     else case to_float v of
       None \<Rightarrow> Inl (NotANumber name)
     | Some x \<Rightarrow> if x \<le> 0 then Inl (NotPositive name x) else Inr x)"

definition validate_non_negative :: "pyval \<Rightarrow> string \<Rightarrow> error + real" where
  "validate_non_negative v name =
    (if v = PyNone then Inl (Required name)
     else case to_float v of
       None \<Rightarrow> Inl (NotANumber name)
     | Some x \<Rightarrow> if x < 0 then Inl (Negative name x) else Inr x)"

definition critical_downstream_pressure :: "pyval \<Rightarrow> pyval \<Rightarrow> error + real" where
  "critical_downstream_pressure P1_psia k =
    (case validate_positive P1_psia ''Relieving pressure (P1_psia)'' of
       Inl e \<Rightarrow> Inl e
     | Inr P1 \<Rightarrow>
        if k = PyNone then Inl (Required ''Specific heat ratio (k)'')
        else
          (case to_float k of
             None \<Rightarrow> Inl (NotANumber ''Specific heat ratio'')
           | Some kf \<Rightarrow>
              if kf \<le> 1 then Inl (KNotAboveOne kf)
              else let ratio = (2 / (kf + 1)) powr (kf / (kf - 1)) in Inr (ratio * P1)))"

definition downstream_pressure :: "pyval \<Rightarrow> pyval \<Rightarrow> error + real" where
  "downstream_pressure P_back_psig atm_psia =
    (case validate_non_negative P_back_psig ''Backpressure (psig)'' of
       Inl e \<Rightarrow> Inl e
     | Inr P_back \<Rightarrow>
        (case validate_positive atm_psia ''Atmospheric pressure (psia)'' of
           Inl e \<Rightarrow> Inl e
         | Inr atm \<Rightarrow> Inr (P_back + atm)))"

text \<open>\<^verbatim>\<open>is_critical\<close> of flow/pressures.py.\<close>

definition is_critical :: "pyval \<Rightarrow> pyval \<Rightarrow> pyval \<Rightarrow> pyval \<Rightarrow> error + bool" where
  "is_critical P1_psia P_back_psig atm_psia k =
    (case critical_downstream_pressure P1_psia k of
       Inl e \<Rightarrow> Inl e
     | Inr P_crit \<Rightarrow>
        (case downstream_pressure P_back_psig atm_psia of
           Inl e \<Rightarrow> Inl e
         | Inr P_down \<Rightarrow> Inr (P_crit > P_down)))"

text \<open>\<^verbatim>\<open>is_critical_flow\<close> of sizing/prd.py: the same two calls and comparison.\<close>

definition is_critical_flow :: "pyval \<Rightarrow> pyval \<Rightarrow> pyval \<Rightarrow> pyval \<Rightarrow> error + bool" where
  "is_critical_flow P1_psia P_back_psig atm_psia k =
    (case critical_downstream_pressure P1_psia k of
       Inl e \<Rightarrow> Inl e
     | Inr P_crit \<Rightarrow>
        (case downstream_pressure P_back_psig atm_psia of
           Inl e \<Rightarrow> Inl e
         | Inr P_down \<Rightarrow> Inr (P_crit > P_down)))"

section \<open>Orifice selection (sizing/orifice.py)\<close>

text \<open>The two module-level dicts, as association lists in insertion order.\<close>

definition API_ORIFICES :: "(string \<times> real) list" where
  "API_ORIFICES =
    [(''D'', 0.110), (''E'', 0.196), (''F'', 0.307), (''G'', 0.503), (''H'', 0.785),
     (''J'', 1.287), (''K'', 1.838), (''L'', 2.853), (''M'', 3.600), (''N'', 4.454),
     (''P'', 6.380), (''Q'', 11.050), (''R'', 16.000), (''T'', 26.000)]"

definition API_INLET_SIZES :: "(string \<times> real) list" where
  "API_INLET_SIZES =
    [(''D'', 1.0), (''E'', 1.0), (''F'', 1.5), (''G'', 1.5), (''H'', 2.0),
     (''J'', 3.0), (''K'', 3.0), (''L'', 4.0), (''M'', 4.0), (''N'', 4.0),
     (''P'', 6.0), (''Q'', 6.0), (''R'', 8.0), (''T'', 8.0)]"

definition MAX_ORIFICE_AREA :: real where
  "MAX_ORIFICE_AREA = Max (set (map snd API_ORIFICES))"

definition get_orifice_diameter :: "real \<Rightarrow> real" where
  "get_orifice_diameter area = 2 * sqrt (area / pi)"

record orifice =
  letter :: string
  area_in2 :: real
  diameter_in :: real
  inlet_size_in :: real

text \<open>\<^verbatim>\<open>API_INLET_SIZES[letter]\<close> raises \<^verbatim>\<open>KeyError\<close> on a missing key.\<close>

definition make_orifice :: "string \<Rightarrow> real \<Rightarrow> error + orifice" where
  "make_orifice l a =
    (case map_of API_INLET_SIZES l of
       None \<Rightarrow> Inl (KeyError l)
     | Some inlet \<Rightarrow>
         Inr \<lparr>letter = l, area_in2 = a, diameter_in = get_orifice_diameter a,
              inlet_size_in = inlet\<rparr>)"

text \<open>The \<^verbatim>\<open>for letter, area in sorted(...)\<close> loop: the first entry that is large enough.\<close>

fun scan_orifices :: "(string \<times> real) list \<Rightarrow> real \<Rightarrow> (string \<times> real) option" where
  "scan_orifices [] A = None"
| "scan_orifices ((l, a) # rest) A = (if a \<ge> A then Some (l, a) else scan_orifices rest A)"

definition select_orifice :: "pyval \<Rightarrow> error + orifice" where
  "select_orifice A_required_in2 =
    (if A_required_in2 = PyNone then Inl (Required ''Required area'')
     else case to_float A_required_in2 of
       None \<Rightarrow> Inl (NotANumber ''Required area'')
     | Some A \<Rightarrow>
        if A < 0 then Inl (Negative ''Required area'' A)
        else if A = 0 then
          (case map_of API_ORIFICES ''D'' of
             None \<Rightarrow> Inl (KeyError ''D'')
           | Some aD \<Rightarrow> make_orifice ''D'' aD)
        else
          (case scan_orifices (sort_key snd API_ORIFICES) A of
             Some (l, a) \<Rightarrow> make_orifice l a
           | None \<Rightarrow> Inl (NoStandardOrifice A ''T'' MAX_ORIFICE_AREA)))"

section \<open>Head geometry (geometry/heads.py)\<close>

text \<open>
  Propagation of a raised exception through a call: the rest of the caller runs only on
  a returned value.
\<close>

definition and_then :: "error + 'a \<Rightarrow> ('a \<Rightarrow> error + 'b) \<Rightarrow> error + 'b" where
  "and_then m f = (case m of Inl e \<Rightarrow> Inl e | Inr x \<Rightarrow> f x)"

definition validate_head_dimensions :: "pyval \<Rightarrow> pyval \<Rightarrow> error + real \<times> real" where
  "validate_head_dimensions diam thick =
    (if diam = PyNone then Inl (Required ''Diameter'')
     else case to_float diam of
       None \<Rightarrow> Inl (NotANumber ''Diameter'')
     | Some d \<Rightarrow>
        if d \<le> 0 then Inl (NotPositive ''Diameter'' d)
        else if thick = PyNone then Inl (Required ''Thickness'')
        else
          (case to_float thick of
             None \<Rightarrow> Inl (NotANumber ''Thickness'')
           | Some t \<Rightarrow>
              if t < 0 then Inl (Negative ''Thickness'' t)
              else if t \<ge> d / 2 then Inl (ThicknessTooLarge (t * 1000) (d / 2 * 1000))
              else Inr (d, t)))"

text \<open>
  The attributes that \<^verbatim>\<open>__post_init__\<close> sets on an \<^verbatim>\<open>ASMEFDHead\<close> and on an
  \<^verbatim>\<open>Elliptical2to1Head\<close> (the two classes have the same attributes and the same method
  bodies; only the constants \<^verbatim>\<open>major\<close> and \<^verbatim>\<open>minor\<close> differ), and those of a
  \<^verbatim>\<open>HemisphericalHead\<close>, which has no \<^verbatim>\<open>h3\<close>.
\<close>

record torispherical =
  diameter :: real
  thickness :: real
  major :: real
  minor :: real
  crown_radius :: real
  knuckle_radius :: real
  radius :: real
  c_height_offset :: real
  c_radius_offset :: real
  k_height_offset :: real
  k_radius_offset :: real
  h1 :: real
  h2 :: real
  h3 :: real

record hemisphere =
  hs_diameter :: real
  hs_thickness :: real
  hs_radius :: real
  head_depth :: real
  hs_h1 :: real
  hs_h2 :: real

datatype head =
    ASMEFDHead torispherical
  | Elliptical2to1Head torispherical
  | HemisphericalHead hemisphere

text \<open>
  The body of \<^verbatim>\<open>__post_init__\<close> after validation, for given \<^verbatim>\<open>major\<close> and \<^verbatim>\<open>minor\<close>.
  \<^verbatim>\<open>math.sqrt\<close> and \<^verbatim>\<open>math.asin\<close> raise outside their domains; with the constants of
  the two classes and a positive diameter their arguments are inside
  (lemmas \<open>post_init_sqrt_arg\<close> and \<open>post_init_asin_arg\<close>).
\<close>

definition post_init :: "real \<Rightarrow> real \<Rightarrow> real \<Rightarrow> real \<Rightarrow> torispherical" where
  "post_init mj mn d t =
    (let Rc_ext = mj * d;
         Rk_ext = mn * d;
         R_ext = d / 2;
         a_ext = Rc_ext - Rk_ext;
         b_ext = R_ext - Rk_ext;
         rp2_ext = (d - 2 * Rk_ext) / 2;
         hp2_ext = Rc_ext - sqrt (a_ext\<^sup>2 - b_ext\<^sup>2);
         alpha_ext = arcsin (rp2_ext / (Rc_ext - Rk_ext))
     in \<lparr>diameter = d, thickness = t, major = mj, minor = mn,
         crown_radius = Rc_ext - t,
         knuckle_radius = Rk_ext - t,
         radius = R_ext - t,
         c_height_offset = Rc_ext,
         c_radius_offset = 0,
         k_height_offset = hp2_ext,
         k_radius_offset = rp2_ext,
         h1 = 0,
         h2 = Rc_ext - cos alpha_ext * Rc_ext,
         h3 = hp2_ext\<rparr>)"

definition new_ASMEFDHead :: "pyval \<Rightarrow> pyval \<Rightarrow> error + head" where
  "new_ASMEFDHead diam thick =
    and_then (validate_head_dimensions diam thick)
      (\<lambda>(d, t). Inr (ASMEFDHead (post_init 1.00 0.06 d t)))"

definition new_Elliptical2to1Head :: "pyval \<Rightarrow> pyval \<Rightarrow> error + head" where
  "new_Elliptical2to1Head diam thick =
    and_then (validate_head_dimensions diam thick)
      (\<lambda>(d, t). Inr (Elliptical2to1Head (post_init 0.90 0.17 d t)))"

definition new_HemisphericalHead :: "pyval \<Rightarrow> pyval \<Rightarrow> error + head" where
  "new_HemisphericalHead diam thick =
    and_then (validate_head_dimensions diam thick)
      (\<lambda>(d, t). let r = d / 2 - t
                in Inr (HemisphericalHead
                     \<lparr>hs_diameter = d, hs_thickness = t, hs_radius = r, head_depth = r,
                      hs_h1 = 0, hs_h2 = r\<rparr>))"

text \<open>Attribute reads \<^verbatim>\<open>head.radius\<close>, \<^verbatim>\<open>head.h1\<close> and \<^verbatim>\<open>getattr(head, "h3", head.h2)\<close>.\<close>

fun head_radius :: "head \<Rightarrow> real" where
  "head_radius (ASMEFDHead a) = radius a"
| "head_radius (Elliptical2to1Head a) = radius a"
| "head_radius (HemisphericalHead s) = hs_radius s"

fun head_h1 :: "head \<Rightarrow> real" where
  "head_h1 (ASMEFDHead a) = h1 a"
| "head_h1 (Elliptical2to1Head a) = h1 a"
| "head_h1 (HemisphericalHead s) = hs_h1 s"

fun head_h2 :: "head \<Rightarrow> real" where
  "head_h2 (ASMEFDHead a) = h2 a"
| "head_h2 (Elliptical2to1Head a) = h2 a"
| "head_h2 (HemisphericalHead s) = hs_h2 s"

fun getattr_h3 :: "head \<Rightarrow> real" where
  "getattr_h3 (ASMEFDHead a) = h3 a"
| "getattr_h3 (Elliptical2to1Head a) = h3 a"
| "getattr_h3 (HemisphericalHead s) = hs_h2 s"

definition torispherical_radius_at_height :: "torispherical \<Rightarrow> real \<Rightarrow> real" where
  "torispherical_radius_at_height a h =
    (if h \<le> h2 a then
       (let val = (crown_radius a)\<^sup>2 - (h - c_height_offset a)\<^sup>2
        in sqrt (max val 0) + c_radius_offset a)
     else if h \<le> h3 a then
       (let val = (knuckle_radius a)\<^sup>2 - (h - k_height_offset a)\<^sup>2
        in sqrt (max val 0) + k_radius_offset a)
     else radius a)"

fun radius_at_height :: "head \<Rightarrow> real \<Rightarrow> real" where
  "radius_at_height (ASMEFDHead a) h = torispherical_radius_at_height a h"
| "radius_at_height (Elliptical2to1Head a) h = torispherical_radius_at_height a h"
| "radius_at_height (HemisphericalHead s) h =
    (if h \<le> hs_h2 s then
       (let val = (hs_radius s)\<^sup>2 - (hs_radius s - h)\<^sup>2 in sqrt (max val 0))
     else hs_radius s)"

definition area_at_height :: "head \<Rightarrow> real \<Rightarrow> real" where
  "area_at_height head h = (let r = radius_at_height head h in pi * r\<^sup>2)"

text \<open>
  \<^verbatim>\<open>volume_up_to(h, steps)\<close>: the loop over \<^verbatim>\<open>range(steps)\<close> is a fold over
  \<open>[0..<nat steps]\<close> (empty when \<^verbatim>\<open>steps\<close> is negative); \<^verbatim>\<open>steps = 0\<close> raises at the
  division.
\<close>

definition volume_up_to :: "head \<Rightarrow> real \<Rightarrow> int \<Rightarrow> error + real" where
  "volume_up_to head h steps =
    (if steps = 0 then Inl ZeroDivisionError
     else let dh = (h - head_h1 head) / real_of_int steps
          in Inr (fold (\<lambda>i total. let hi = head_h1 head + real i * dh
                                   in total + area_at_height head hi * dh)
                       [0..<nat steps] 0))"

definition max_head_volume :: "head \<Rightarrow> error + real" where
  "max_head_volume head = volume_up_to head (getattr_h3 head) 500"

section \<open>Vessel wetted area (geometry/vessel.py)\<close>

text \<open>
  \<^verbatim>\<open>_validate_positive\<close> and \<^verbatim>\<open>_validate_non_negative\<close> of this module make the same
  three tests as those of flow/pressures.py (the wording of the messages differs), so
  \<open>validate_positive\<close> and \<open>validate_non_negative\<close> stand for both. The \<^verbatim>\<open>steps\<close>
  argument is an integer, on which \<^verbatim>\<open>int(value)\<close> is the identity.
\<close>

definition validate_positive_int :: "int \<Rightarrow> string \<Rightarrow> int \<Rightarrow> error + int" where
  "validate_positive_int val name min_val =
    (if val < min_val then Inl (BelowMinimum name min_val val) else Inr val)"

definition build_head :: "pystr \<Rightarrow> pyval \<Rightarrow> pyval \<Rightarrow> error + head" where
  "build_head head_type OD_m thickness_mm =
    (case head_type of
       StrNone \<Rightarrow> Inl HeadTypeRequired
     | NotStr \<Rightarrow> Inl HeadTypeRequired
     | Str ht \<Rightarrow>
        and_then (validate_positive OD_m ''Outer diameter (OD_m)'') (\<lambda>OD.
        and_then (validate_non_negative thickness_mm ''Wall thickness (thickness_mm)'') (\<lambda>tmm.
          let thickness_m = tmm / 1000 in
          if thickness_m \<ge> OD / 2 then Inl (ThicknessTooLarge tmm (OD / 2 * 1000))
          else if ht = ''ASME_FD'' then new_ASMEFDHead (PyFloat OD) (PyFloat thickness_m)
          else if ht = ''Ellipsoidal'' then new_Elliptical2to1Head (PyFloat OD) (PyFloat thickness_m)
          else if ht = ''Hemispherical'' then new_HemisphericalHead (PyFloat OD) (PyFloat thickness_m)
          else Inl (UnsupportedHeadType ht))))"

text \<open>
  \<^verbatim>\<open>head_wetted_area_up_to(h, head, steps)\<close>. The early \<^verbatim>\<open>return 0.0\<close> precedes the
  division by \<^verbatim>\<open>steps\<close>.
\<close>

definition head_wetted_area_up_to :: "real \<Rightarrow> head \<Rightarrow> int \<Rightarrow> error + real" where
  "head_wetted_area_up_to h head steps =
    (let h_low = head_h1 head;
         h_high = min h (getattr_h3 head)
     in if h \<le> h_low then Inr 0
        else if steps = 0 then Inl ZeroDivisionError
        else let dh = (h_high - h_low) / real_of_int steps
             in Inr (fold (\<lambda>i total.
                       let hi = h_low + real i * dh;
                           r = radius_at_height head hi;
                           h_forward = min (hi + 1 / 10 ^ 5) h_high;
                           r_forward = radius_at_height head h_forward;
                           dr_dh = (if h_forward \<noteq> hi
                                    then (r_forward - r) / (h_forward - hi) else 0);
                           dA = 2 * pi * r * sqrt (1 + dr_dh\<^sup>2) * dh
                       in total + dA)
                     [0..<nat steps] 0))"

text \<open>\<^verbatim>\<open>wetted_area_up_to_height(H, head, shell_height, steps)\<close>; \<^verbatim>\<open>head\<close> may be \<^verbatim>\<open>None\<close>.\<close>

definition wetted_area_up_to_height ::
  "pyval \<Rightarrow> head option \<Rightarrow> pyval \<Rightarrow> int \<Rightarrow> error + real" where
  "wetted_area_up_to_height H head_arg shell_height steps =
    (case head_arg of
       None \<Rightarrow> Inl HeadRequired
     | Some head \<Rightarrow>
        (case to_float H of
           None \<Rightarrow> Inl (NotANumber ''Height (H)'')
         | Some Hf \<Rightarrow>
            if Hf < 0 then Inr 0
            else
              (case to_float shell_height of
                 None \<Rightarrow> Inl (NotANumber ''Shell height'')
               | Some H_shell \<Rightarrow>
                  if H_shell < 0 then Inl ShellHeightNegative
                  else
                    let R = head_radius head;
                        H_head = getattr_h3 head
                    in if Hf \<le> H_head then head_wetted_area_up_to Hf head steps
                       else if Hf \<le> H_head + H_shell then
                         and_then (head_wetted_area_up_to H_head head steps) (\<lambda>A_head_bottom.
                           let h_cyl = Hf - H_head;
                               A_cyl = 2 * pi * R * h_cyl
                           in Inr (A_head_bottom + A_cyl))
                       else
                         and_then (head_wetted_area_up_to H_head head steps) (\<lambda>A_head_bottom.
                           let A_cyl = 2 * pi * R * H_shell;
                               h_in_top = Hf - (H_head + H_shell)
                           in and_then (head_wetted_area_up_to h_in_top head steps) (\<lambda>A_head_top.
                                Inr (A_head_bottom + A_cyl + A_head_top))))))"

text \<open>
  \<^verbatim>\<open>solve_height_in_head\<close>: the body of the bisection loop as a recursion on the number
  of iterations left, on the pair \<open>(low, high)\<close>.
\<close>

fun bisect :: "head \<Rightarrow> real \<Rightarrow> nat \<Rightarrow> real \<Rightarrow> real \<Rightarrow> error + real \<times> real" where
  "bisect head V_target 0 low high = Inr (low, high)"
| "bisect head V_target (Suc n) low high =
    (let mid = 0.5 * (low + high)
     in and_then (volume_up_to head mid 500) (\<lambda>V_mid.
          if V_mid < V_target then bisect head V_target n mid high
          else bisect head V_target n low mid))"

definition solve_height_in_head :: "real \<Rightarrow> head \<Rightarrow> int \<Rightarrow> error + real" where
  "solve_height_in_head V_target head steps =
    and_then (bisect head V_target (nat steps) (head_h1 head) (getattr_h3 head))
      (\<lambda>(low, high). Inr (0.5 * (low + high)))"

definition liquid_height_from_volume :: "real \<Rightarrow> head \<Rightarrow> real \<Rightarrow> error + real" where
  "liquid_height_from_volume V_m3 head shell_height_m =
    and_then (max_head_volume head) (\<lambda>V_head.
      let A_cyl = pi * (head_radius head)\<^sup>2;
          H_head = getattr_h3 head;
          H_shell = shell_height_m
      in if V_m3 \<le> V_head then solve_height_in_head V_m3 head 40
         else
           let V_rem = V_m3 - V_head
           in if V_rem \<le> A_cyl * H_shell then
                (if A_cyl = 0 then Inl ZeroDivisionError
                 else let h_cyl = V_rem / A_cyl in Inr (H_head + h_cyl))
              else
                let V_rem2 = V_rem - A_cyl * H_shell
                in and_then (solve_height_in_head V_rem2 head 40) (\<lambda>h_in_top.
                     Inr (H_head + H_shell + h_in_top)))"

record fill_result =
  liquid_height_m :: real
  liquid_height_exposed_m :: real
  wetted_area_m2 :: real

definition valid_head_types :: "string list" where
  "valid_head_types = [''ASME_FD'', ''Ellipsoidal'', ''Hemispherical'']"

text \<open>
  \<^verbatim>\<open>head_type not in valid_head_types\<close> is true of every object that is not one of the
  three strings.
\<close>

fun in_valid_head_types :: "pystr \<Rightarrow> bool" where
  "in_valid_head_types (Str s) = (s \<in> set valid_head_types)"
| "in_valid_head_types StrNone = False"
| "in_valid_head_types NotStr = False"

definition wetted_area_from_fill_volume ::
  "pystr \<Rightarrow> pystr \<Rightarrow> pyval \<Rightarrow> pyval \<Rightarrow> pyval \<Rightarrow> pyval \<Rightarrow> pyval \<Rightarrow> pyval \<Rightarrow> int
     \<Rightarrow> error + fill_result" where
  "wetted_area_from_fill_volume orientation head_type L_tangent_m OD_m thickness_mm
       bottom_height_m fire_height_m fill_volume_m3 steps =
    (case orientation of
       StrNone \<Rightarrow> Inl OrientationRequired
     | NotStr \<Rightarrow> Inl OrientationRequired
     | Str ori \<Rightarrow>
        if ori \<noteq> ''Vertical'' then Inl (OnlyVertical ori)
        else if \<not> in_valid_head_types head_type then Inl (BadHeadType head_type)
        else
        and_then (validate_positive OD_m ''Error with Outer Diameter input'') (\<lambda>OD.
        and_then (validate_non_negative thickness_mm ''Error with Shell Thickness input'') (\<lambda>tmm.
        and_then (validate_non_negative L_tangent_m ''Error with Shell Height input'') (\<lambda>L.
        and_then (validate_non_negative bottom_height_m
                    ''Error with Surface to Vessel Bottom Height input'') (\<lambda>bottom.
        and_then (validate_non_negative fire_height_m ''Error with Fire Height input'') (\<lambda>fire.
        and_then (validate_non_negative fill_volume_m3
                    ''Error with Normal Fill Volume input'') (\<lambda>fill.
        and_then (validate_positive_int steps ''Integration steps'' 10) (\<lambda>stp.
          let thickness_m = tmm / 1000 in
          if thickness_m \<ge> OD / 2 then Inl (ThicknessTooLarge tmm (OD / 2 * 1000))
          else
          and_then (build_head head_type (PyFloat OD) (PyFloat tmm)) (\<lambda>head.
            let H_head = getattr_h3 head;
                H_total = H_head + L + H_head
            in
            and_then (max_head_volume head) (\<lambda>V_head.
              let R = head_radius head;
                  A_cyl = pi * R\<^sup>2;
                  V_max = V_head * 2 + A_cyl * L
              in
              if fill > V_max then Inl (CapacityExceeded fill V_max)
              else
              and_then (liquid_height_from_volume fill head L) (\<lambda>lh.
                let liquid_level_from_grade = bottom + lh;
                    fire_limit_from_vessel_bottom = fire - bottom
                in
                if fire_limit_from_vessel_bottom \<le> 0 then
                  Inr \<lparr>liquid_height_m = lh, liquid_height_exposed_m = 0,
                       wetted_area_m2 = 0\<rparr>
                else
                  let exposed = min lh fire_limit_from_vessel_bottom
                  in and_then (wetted_area_up_to_height (PyFloat exposed) (Some head)
                                 (PyFloat L) stp) (\<lambda>wa.
                       Inr \<lparr>liquid_height_m = lh, liquid_height_exposed_m = exposed,
                            wetted_area_m2 = wa\<rparr>))))))))))))"

text \<open>
  The same function, returning beside its result the list of the heights at which it
  calls \<^verbatim>\<open>wetted_area_up_to_height\<close>, in call order. The source has one call site
  (vessel.py, line 237), after the early \<^verbatim>\<open>return\<close> of lines 225 to 231; nothing else
  differs from \<open>wetted_area_from_fill_volume\<close> (lemma
  \<open>wetted_area_from_fill_volume_traced_result\<close>).
\<close>

definition wetted_area_from_fill_volume_traced ::
  "pystr \<Rightarrow> pystr \<Rightarrow> pyval \<Rightarrow> pyval \<Rightarrow> pyval \<Rightarrow> pyval \<Rightarrow> pyval \<Rightarrow> pyval \<Rightarrow> int
     \<Rightarrow> error + fill_result \<times> real list" where
  "wetted_area_from_fill_volume_traced orientation head_type L_tangent_m OD_m thickness_mm
       bottom_height_m fire_height_m fill_volume_m3 steps =
    (case orientation of
       StrNone \<Rightarrow> Inl OrientationRequired
     | NotStr \<Rightarrow> Inl OrientationRequired
     | Str ori \<Rightarrow>
        if ori \<noteq> ''Vertical'' then Inl (OnlyVertical ori)
        else if \<not> in_valid_head_types head_type then Inl (BadHeadType head_type)
        else
        and_then (validate_positive OD_m ''Error with Outer Diameter input'') (\<lambda>OD.
        and_then (validate_non_negative thickness_mm ''Error with Shell Thickness input'') (\<lambda>tmm.
        and_then (validate_non_negative L_tangent_m ''Error with Shell Height input'') (\<lambda>L.
        and_then (validate_non_negative bottom_height_m
                    ''Error with Surface to Vessel Bottom Height input'') (\<lambda>bottom.
        and_then (validate_non_negative fire_height_m ''Error with Fire Height input'') (\<lambda>fire.
        and_then (validate_non_negative fill_volume_m3
                    ''Error with Normal Fill Volume input'') (\<lambda>fill.
        and_then (validate_positive_int steps ''Integration steps'' 10) (\<lambda>stp.
          let thickness_m = tmm / 1000 in
          if thickness_m \<ge> OD / 2 then Inl (ThicknessTooLarge tmm (OD / 2 * 1000))
          else
          and_then (build_head head_type (PyFloat OD) (PyFloat tmm)) (\<lambda>head.
            let H_head = getattr_h3 head;
                H_total = H_head + L + H_head
            in
            and_then (max_head_volume head) (\<lambda>V_head.
              let R = head_radius head;
                  A_cyl = pi * R\<^sup>2;
                  V_max = V_head * 2 + A_cyl * L
              in
              if fill > V_max then Inl (CapacityExceeded fill V_max)
              else
              and_then (liquid_height_from_volume fill head L) (\<lambda>lh.
                let liquid_level_from_grade = bottom + lh;
                    fire_limit_from_vessel_bottom = fire - bottom
                in
                if fire_limit_from_vessel_bottom \<le> 0 then
                  Inr (\<lparr>liquid_height_m = lh, liquid_height_exposed_m = 0,
                        wetted_area_m2 = 0\<rparr>, [])
                else
                  let exposed = min lh fire_limit_from_vessel_bottom
                  in and_then (wetted_area_up_to_height (PyFloat exposed) (Some head)
                                 (PyFloat L) stp) (\<lambda>wa.
                       Inr (\<lparr>liquid_height_m = lh, liquid_height_exposed_m = exposed,
                             wetted_area_m2 = wa\<rparr>, [exposed])))))))))))))"

section \<open>The surface integral as the specification words it\<close>

text \<open>
  Following the specification, not the code: the wetted area of a head up to height \<open>h\<close> is
  the sum \<open>\<Sum> 2\<pi> r \<surd>(1 + (dr/dh)\<^sup>2) dh\<close> over \<open>n\<close> equal steps from the head base
  to \<open>h\<close> (at most the head's top breakpoint), where \<open>dr/dh\<close> is a forward finite
  difference with the fixed offset \<open>10\<^sup>-\<^sup>5\<close>, taken as \<open>0\<close> when the forward step has zero
  length. Nothing is wetted at or below the head base.
\<close>

definition spec_forward_slope :: "head \<Rightarrow> real \<Rightarrow> real \<Rightarrow> real" where
  "spec_forward_slope head h_high x =
    (let x_forward = min (x + 1 / 10 ^ 5) h_high
     in if x_forward \<noteq> x
        then (radius_at_height head x_forward - radius_at_height head x) / (x_forward - x)
        else 0)"

definition spec_head_surface_sum :: "head \<Rightarrow> real \<Rightarrow> nat \<Rightarrow> real" where
  "spec_head_surface_sum head h n =
    (if h \<le> head_h1 head then 0
     else let h_high = min h (getattr_h3 head);
              dh = (h_high - head_h1 head) / real n
          in (\<Sum>i<n. 2 * pi * radius_at_height head (head_h1 head + real i * dh)
                      * sqrt (1 + (spec_forward_slope head h_high (head_h1 head + real i * dh))\<^sup>2)
                      * dh))"

section \<open>Example input\<close>

text \<open>
  The attributes of \<^verbatim>\<open>ASMEFDHead(diameter=1.0, thickness=0.01)\<close>, a head of 1 m
  external diameter with a 10 mm wall, used as a concrete input below.
\<close>

definition thin_wall_example :: torispherical where
  "thin_wall_example = post_init 1.00 0.06 1 0.01"

section \<open>Fire heat load: results\<close>

text \<open>
  Claim C1. For a numeric wetted area \<open>A \<ge> 0\<close> and a numeric design pressure \<open>P\<close>,
  \<open>heat_load_api2000\<close> returns \<open>0\<close> when \<open>A = 0\<close>, \<open>10800 A\<close> when \<open>P > 1.034\<close>,
  and otherwise \<open>63150 A\<close> below 18.6, \<open>224200 A\<^sup>0\<^sup>.\<^sup>5\<^sup>6\<^sup>6\<close> on
  \<open>[18.6, 93)\<close>, \<open>630400 A\<^sup>0\<^sup>.\<^sup>3\<^sup>3\<^sup>8\<close> on \<open>[93, 260)\<close>, and from 260 on
  \<open>43200 A\<^sup>0\<^sup>.\<^sup>8\<^sup>2\<close> when \<open>P \<ge> 0.07\<close> and the constant 4129700 when \<open>P < 0.07\<close>.
  At exactly \<open>A = 18.6\<close> the second band is the one used.
\<close>

theorem heat_load_api2000_bands:
  assumes "0 \<le> A"
  shows "heat_load_api2000 (PyFloat A) (PyFloat P) =
     Inr (if A = 0 then 0
          else if P > 1.034 then 10800 * A
          else if A < 18.6 then 63150 * A
          else if A < 93 then 224200 * (A powr 0.566)
          else if A < 260 then 630400 * (A powr 0.338)
          else if P \<ge> 0.07 then 43200 * (A powr 0.82)
          else 4129700)
    \<and> (P \<le> 1.034 \<longrightarrow>
          heat_load_api2000 (PyFloat 18.6) (PyFloat P) = Inr (224200 * (18.6 powr 0.566)))"
  using assms by (simp add: heat_load_api2000_def)

theorem heat_load_api2000_bands_witness:
  "heat_load_api2000 (PyFloat 300) (PyFloat 0.05) = Inr 4129700
   \<and> heat_load_api2000 (PyFloat 18.6) (PyFloat 1) = Inr (224200 * (18.6 powr 0.566))"
  using heat_load_api2000_bands [of 300 "0.05"] heat_load_api2000_bands [of 300 1]
  by simp

text \<open>
  Claim C7, as stated, fails: with a positive wetted area the function raises when the
  design pressure is \<^verbatim>\<open>None\<close> or not a number.
\<close>

theorem heat_load_api2000_design_pressure_none:
  "heat_load_api2000 (PyFloat 1) PyNone = Inl (Required ''Design pressure (P_design_barg)'')
   \<and> heat_load_api2000 (PyFloat 1) PyNonNumeric = Inl (NotANumber ''Design pressure'')"
  by (simp add: heat_load_api2000_def)

text \<open>
  Claim C7, amended. For a real (non-NaN) wetted area \<open>A \<ge> 0\<close> the function returns a
  value whenever the design pressure is a real (non-NaN) number, and for \<open>A = 0\<close> whatever
  the design pressure is; for \<open>A > 0\<close> it raises when the design pressure is \<^verbatim>\<open>None\<close> or
  not convertible to a number.
\<close>

theorem heat_load_api2000_returns:
  assumes "0 \<le> A"
  shows "(\<exists>Q. heat_load_api2000 (PyFloat A) (PyFloat P) = Inr Q)
       \<and> (A = 0 \<longrightarrow> heat_load_api2000 (PyFloat A) Pv = Inr 0)
       \<and> (0 < A \<longrightarrow> heat_load_api2000 (PyFloat A) PyNone
                        = Inl (Required ''Design pressure (P_design_barg)''))
       \<and> (0 < A \<longrightarrow> heat_load_api2000 (PyFloat A) PyNonNumeric
                        = Inl (NotANumber ''Design pressure''))"
  using assms by (simp add: heat_load_api2000_def)

theorem heat_load_api2000_returns_witness:
  "(\<exists>Q. heat_load_api2000 (PyFloat 5) (PyFloat 2) = Inr Q)
   \<and> heat_load_api2000 (PyFloat 5) PyNone = Inl (Required ''Design pressure (P_design_barg)'')"
  using heat_load_api2000_returns [of 5 2] by simp

text \<open>
  Claim C10. For a real wetted area \<open>A \<ge> 0\<close> and a real design pressure \<open>P\<close> the final
  \<^verbatim>\<open>raise ValueError("Unexpected API2000 input combination ...")\<close> is never the outcome:
  the high-pressure branch and the five table rows cover every such input.
\<close>

theorem heat_load_api2000_terminal_raise_unreachable:
  assumes "0 \<le> A"
  shows "heat_load_api2000 (PyFloat A) (PyFloat P) \<noteq> Inl (UnexpectedAPI2000 a p)"
  using assms by (simp add: heat_load_api2000_def)

theorem heat_load_api2000_terminal_raise_unreachable_witness:
  "heat_load_api2000 (PyFloat 260) (PyFloat 0.07) \<noteq> Inl (UnexpectedAPI2000 260 0.07)"
  using heat_load_api2000_terminal_raise_unreachable [of 260 "0.07" 260 "0.07"] by simp

section \<open>Evaporation rate: results\<close>

text \<open>
  Claim C8, as stated, fails: with a zero heat load the function returns \<open>0\<close> before it
  looks at the enthalpy of vaporization, so a non-positive enthalpy raises nothing.
\<close>

theorem evaporation_rate_zero_heat_bad_enthalpy:
  "evaporation_rate (PyFloat 0) (PyFloat (- 1)) = Inr 0"
  by (simp add: evaporation_rate_def)

text \<open>
  Claim C8, amended. \<open>evaporation_rate Q h\<close> returns \<open>Q / h\<close> for \<open>Q > 0\<close> and \<open>h > 0\<close>;
  it returns \<open>0\<close> for \<open>Q = 0\<close> whatever the second argument is; for \<open>Q > 0\<close> and
  \<open>h \<le> 0\<close> it raises the enthalpy error; for \<open>Q < 0\<close> it raises the heat-load error.
\<close>

theorem evaporation_rate_cases:
  "(0 < Q \<and> 0 < h \<longrightarrow> evaporation_rate (PyFloat Q) (PyFloat h) = Inr (Q / h))
   \<and> evaporation_rate (PyFloat 0) hv = Inr 0
   \<and> (0 < Q \<and> h \<le> 0 \<longrightarrow>
        evaporation_rate (PyFloat Q) (PyFloat h) = Inl (NotPositive ''Enthalpy of vaporization'' h))
   \<and> (Q < 0 \<longrightarrow> evaporation_rate (PyFloat Q) hv = Inl (Negative ''Heat load'' Q))"
  by (simp add: evaporation_rate_def)

theorem evaporation_rate_cases_witness:
  "evaporation_rate (PyFloat 10) (PyFloat 4) = Inr (10 / 4)
   \<and> evaporation_rate (PyFloat 10) (PyFloat 0) = Inl (NotPositive ''Enthalpy of vaporization'' 0)
   \<and> evaporation_rate (PyFloat (- 2)) (PyFloat 0) = Inl (Negative ''Heat load'' (- 2))"
  using evaporation_rate_cases [of 10 4 PyNone] evaporation_rate_cases [of 10 0 PyNone]
    evaporation_rate_cases [of "- 2" 0 "PyFloat 0"]
  by simp

section \<open>Criticality: results\<close>

text \<open>The pressure ratio for \<open>k = 1.4\<close>, \<open>(5/6)\<^sup>3\<^sup>.\<^sup>5\<close>, lies between 0.528 and 0.5285.\<close>

lemma critical_ratio_14:
  "0.528 < (5 / 6 :: real) powr (7 / 2) \<and> (5 / 6 :: real) powr (7 / 2) < 0.5285"
proof -
  define v :: real where "v = (5 / 6) powr (7 / 2)"
  have pos: "0 < v" by (simp add: v_def)
  have "v * v = (5 / 6) powr (7 / 2 + 7 / 2)"
    unfolding v_def by (simp only: powr_add)
  also have "\<dots> = (5 / 6 :: real) powr (real (7::nat))" by simp
  also have "\<dots> = (5 / 6) ^ 7" by (subst powr_realpow) simp_all
  also have "\<dots> = 78125 / 279936" by (simp add: power_divide)
  finally have sq: "v\<^sup>2 = 78125 / 279936" by (simp add: power2_eq_square)
  have lo: "0.528 < v"
  proof (rule ccontr)
    assume "\<not> 0.528 < v"
    then have "v \<le> 0.528" by simp
    with pos have "v\<^sup>2 \<le> 0.528\<^sup>2" by (intro power_mono) simp_all
    with sq show False by (simp add: power2_eq_square)
  qed
  have hi: "v < 0.5285"
  proof (rule ccontr)
    assume "\<not> v < 0.5285"
    then have "0.5285 \<le> v" by simp
    then have "0.5285\<^sup>2 \<le> v\<^sup>2" by (intro power_mono) simp_all
    with sq show False by (simp add: power2_eq_square)
  qed
  from lo hi show ?thesis by (simp add: v_def)
qed

text \<open>
  Claim C2. For \<open>P1 > 0\<close>, \<open>atm > 0\<close>, \<open>P_back \<ge> 0\<close> and \<open>k > 1\<close>, \<open>is_critical_flow\<close>
  (and \<open>is_critical\<close>) returns true exactly when
  \<open>P1 (2/(k+1))\<^bsup>k/(k-1)\<^esup> > P_back + atm\<close>; the left side is what
  \<open>critical_downstream_pressure\<close> returns and the right side what \<open>downstream_pressure\<close>
  returns; and \<open>critical_downstream_pressure 100 1.4\<close> is between 52.8 and 52.85.
\<close>

theorem is_critical_flow_iff:
  assumes "0 < P1" and "0 < atm" and "0 \<le> P_back" and "1 < k"
  shows "is_critical_flow (PyFloat P1) (PyFloat P_back) (PyFloat atm) (PyFloat k)
           = Inr (P1 * (2 / (k + 1)) powr (k / (k - 1)) > P_back + atm)
       \<and> is_critical (PyFloat P1) (PyFloat P_back) (PyFloat atm) (PyFloat k)
           = Inr (P1 * (2 / (k + 1)) powr (k / (k - 1)) > P_back + atm)
       \<and> critical_downstream_pressure (PyFloat P1) (PyFloat k)
           = Inr (P1 * (2 / (k + 1)) powr (k / (k - 1)))
       \<and> downstream_pressure (PyFloat P_back) (PyFloat atm) = Inr (P_back + atm)
       \<and> (\<exists>x. critical_downstream_pressure (PyFloat 100) (PyFloat 1.4) = Inr x
               \<and> 52.8 < x \<and> x < 52.85)"
proof -
  have cdp: "critical_downstream_pressure (PyFloat P1) (PyFloat k)
           = Inr (P1 * (2 / (k + 1)) powr (k / (k - 1)))"
    using assms by (simp add: critical_downstream_pressure_def validate_positive_def mult.commute)
  have dp: "downstream_pressure (PyFloat P_back) (PyFloat atm) = Inr (P_back + atm)"
    using assms
    by (simp add: downstream_pressure_def validate_positive_def validate_non_negative_def)
  have e: "(2 / (1.4 + 1) :: real) = 5 / 6" "(1.4 / (1.4 - 1) :: real) = 7 / 2" by simp_all
  have c14: "critical_downstream_pressure (PyFloat 100) (PyFloat 1.4)
           = Inr ((5 / 6) powr (7 / 2) * 100)"
    by (simp only: critical_downstream_pressure_def validate_positive_def Let_def e)
       simp
  have ex: "\<exists>x. critical_downstream_pressure (PyFloat 100) (PyFloat 1.4) = Inr x
               \<and> 52.8 < x \<and> x < 52.85"
    using critical_ratio_14 c14 by simp
  show ?thesis
    using cdp dp ex by (simp add: is_critical_flow_def is_critical_def)
qed

theorem is_critical_flow_iff_witness:
  "is_critical_flow (PyFloat 100) (PyFloat 0) (PyFloat 14.7) (PyFloat 1.4) = Inr True"
proof -
  have "is_critical_flow (PyFloat 100) (PyFloat 0) (PyFloat 14.7) (PyFloat 1.4)
      = Inr (100 * (2 / (1.4 + 1)) powr (1.4 / (1.4 - 1)) > 0 + (14.7::real))"
    using is_critical_flow_iff [of 100 "14.7" 0 "1.4"] by simp
  moreover have "(2 / (1.4 + 1) :: real) = 5 / 6" "(1.4 / (1.4 - 1) :: real) = 7 / 2"
    by simp_all
  ultimately show ?thesis using critical_ratio_14 by simp
qed

section \<open>Orifice selection: results\<close>

lemma scan_orifices_sorted:
  "scan_orifices xs A = Some (l, a) \<Longrightarrow> sorted (map snd xs) \<Longrightarrow>
     (l, a) \<in> set xs \<and> A \<le> a \<and> (\<forall>p \<in> set xs. snd p < a \<longrightarrow> snd p < A)"
proof (induction xs)
  case Nil
  then show ?case by simp
next
  case (Cons x xs)
  obtain l0 a0 where x: "x = (l0, a0)" by (cases x)
  from Cons.prems(2) have srt: "sorted (map snd xs)" and low: "\<forall>p \<in> set xs. a0 \<le> snd p"
    by (simp_all add: x)
  show ?case
  proof (cases "A \<le> a0")
    case True
    with Cons.prems(1) x have la: "l = l0" "a = a0" by simp_all
    have "\<forall>p \<in> set (x # xs). snd p < a \<longrightarrow> snd p < A"
      using low la x by fastforce
    with True x la show ?thesis by simp
  next
    case False
    with Cons.prems(1) x have "scan_orifices xs A = Some (l, a)" by simp
    from Cons.IH [OF this srt] have
      ih: "(l, a) \<in> set xs" "A \<le> a" "\<forall>p \<in> set xs. snd p < a \<longrightarrow> snd p < A"
      by simp_all
    have "snd x < A" using False x by simp
    with ih show ?thesis by simp
  qed
qed

lemma scan_orifices_None:
  "scan_orifices xs A = None \<longleftrightarrow> (\<forall>p \<in> set xs. snd p < A)"
proof (induction xs)
  case Nil
  then show ?case by simp
next
  case (Cons x xs)
  obtain l0 a0 where x: "x = (l0, a0)" by (cases x)
  show ?case using Cons.IH by (simp add: x not_le)
qed

lemma MAX_ORIFICE_AREA_value: "MAX_ORIFICE_AREA = 26"
  by (simp add: MAX_ORIFICE_AREA_def API_ORIFICES_def)

lemma API_ORIFICES_bounded: "p \<in> set API_ORIFICES \<Longrightarrow> snd p \<le> 26"
  by (auto simp: API_ORIFICES_def)

lemma API_ORIFICES_has_T: "(''T'', 26) \<in> set API_ORIFICES"
  by (simp add: API_ORIFICES_def)

lemma make_orifice_table:
  "(l, a) \<in> set API_ORIFICES \<Longrightarrow>
     make_orifice l a = Inr \<lparr>letter = l, area_in2 = a, diameter_in = get_orifice_diameter a,
              inlet_size_in = the (map_of API_INLET_SIZES l)\<rparr>"
  by (auto simp: API_ORIFICES_def make_orifice_def API_INLET_SIZES_def)

text \<open>
  Claim C3. For a numeric required area \<open>A \<ge> 0\<close> within the table (\<open>A \<le> 26\<close>),
  \<open>select_orifice\<close> returns an entry of the API table whose area is at least \<open>A\<close> and
  such that every table area strictly below it is below \<open>A\<close> (the smallest adequate
  orifice); \<open>select_orifice 0\<close> returns letter D; for \<open>A > 26\<close> it raises the capacity
  error naming letter T and the maximum area 26.
\<close>

theorem select_orifice_smallest_adequate:
  assumes "0 \<le> A"
  shows "(A \<le> 26 \<longrightarrow>
           (\<exists>r. select_orifice (PyFloat A) = Inr r
                \<and> (letter r, area_in2 r) \<in> set API_ORIFICES
                \<and> A \<le> area_in2 r
                \<and> (\<forall>p \<in> set API_ORIFICES. snd p < area_in2 r \<longrightarrow> snd p < A)))
       \<and> (\<exists>r. select_orifice (PyFloat 0) = Inr r \<and> letter r = ''D'')
       \<and> (26 < A \<longrightarrow> select_orifice (PyFloat A) = Inl (NoStandardOrifice A ''T'' 26))"
proof (intro conjI impI)
  have D: "(''D'', 0.110) \<in> set API_ORIFICES" by (simp add: API_ORIFICES_def)
  have "map_of API_ORIFICES ''D'' = Some 0.110" by (simp add: API_ORIFICES_def)
  then have sel0: "select_orifice (PyFloat 0) = make_orifice ''D'' 0.110"
    by (simp add: select_orifice_def)
  show "\<exists>r. select_orifice (PyFloat 0) = Inr r \<and> letter r = ''D''"
    using make_orifice_table [OF D] by (simp add: sel0)
  {
    assume big: "26 < A"
    have "\<forall>p \<in> set (sort_key snd API_ORIFICES). snd p < A"
    proof
      fix p assume "p \<in> set (sort_key snd API_ORIFICES)"
      then have "p \<in> set API_ORIFICES" by simp
      from API_ORIFICES_bounded [OF this] big show "snd p < A" by simp
    qed
    then have "scan_orifices (sort_key snd API_ORIFICES) A = None"
      by (simp only: scan_orifices_None)
    with big show "select_orifice (PyFloat A) = Inl (NoStandardOrifice A ''T'' 26)"
      by (simp add: select_orifice_def MAX_ORIFICE_AREA_value)
  }
  assume le: "A \<le> 26"
  show "\<exists>r. select_orifice (PyFloat A) = Inr r
            \<and> (letter r, area_in2 r) \<in> set API_ORIFICES
            \<and> A \<le> area_in2 r
            \<and> (\<forall>p \<in> set API_ORIFICES. snd p < area_in2 r \<longrightarrow> snd p < A)"
  proof (cases "A = 0")
    case True
    have small: "\<forall>p \<in> set API_ORIFICES. snd p < 0.110 \<longrightarrow> snd p < A"
      by (simp add: API_ORIFICES_def)
    show ?thesis
      using True D small make_orifice_table [OF D] by (simp add: sel0)
  next
    case False
    let ?xs = "sort_key snd API_ORIFICES"
    have "\<not> (\<forall>p \<in> set ?xs. snd p < A)"
    proof
      assume "\<forall>p \<in> set ?xs. snd p < A"
      moreover have "(''T'', 26) \<in> set ?xs" using API_ORIFICES_has_T by simp
      ultimately have "snd (''T'', 26::real) < A" by (rule bspec)
      with le show False by simp
    qed
    then have "scan_orifices ?xs A \<noteq> None" by (simp add: scan_orifices_None)
    then obtain l a where sc: "scan_orifices ?xs A = Some (l, a)"
      by (cases "scan_orifices ?xs A") auto
    have srt: "sorted (map snd ?xs)" by (rule sorted_sort_key)
    from scan_orifices_sorted [OF sc srt] have
      mem: "(l, a) \<in> set API_ORIFICES" and ge: "A \<le> a"
      and small: "\<forall>p \<in> set API_ORIFICES. snd p < a \<longrightarrow> snd p < A"
      by simp_all
    have sel: "select_orifice (PyFloat A) = make_orifice l a"
      using assms False sc by (simp add: select_orifice_def)
    show ?thesis
      using mem ge small make_orifice_table [OF mem] by (simp add: sel)
  qed
qed

theorem select_orifice_smallest_adequate_witness:
  "(\<exists>r. select_orifice (PyFloat 1) = Inr r \<and> 1 \<le> area_in2 r
        \<and> (letter r, area_in2 r) \<in> set API_ORIFICES)
   \<and> select_orifice (PyFloat 27) = Inl (NoStandardOrifice 27 ''T'' 26)"
proof -
  have "\<exists>r. select_orifice (PyFloat 1) = Inr r
                \<and> (letter r, area_in2 r) \<in> set API_ORIFICES
                \<and> 1 \<le> area_in2 r
                \<and> (\<forall>p \<in> set API_ORIFICES. snd p < area_in2 r \<longrightarrow> snd p < 1)"
    using select_orifice_smallest_adequate [of 1] by simp
  then obtain r where "select_orifice (PyFloat 1) = Inr r"
     "(letter r, area_in2 r) \<in> set API_ORIFICES" "1 \<le> area_in2 r" by blast
  then have one: "\<exists>r. select_orifice (PyFloat 1) = Inr r \<and> 1 \<le> area_in2 r
        \<and> (letter r, area_in2 r) \<in> set API_ORIFICES"
    by blast
  have "select_orifice (PyFloat 27) = Inl (NoStandardOrifice 27 ''T'' 26)"
    using select_orifice_smallest_adequate [of 27] by simp
  with one show ?thesis by simp
qed

section \<open>Head geometry and vessel: auxiliary facts\<close>

lemma and_then_Inr [simp]: "and_then (Inr x) f = f x"
  by (simp add: and_then_def)

lemma and_then_Inl [simp]: "and_then (Inl e) f = Inl e"
  by (simp add: and_then_def)

lemma fold_add_sum:
  "fold (\<lambda>i total. total + f i) xs a = a + sum_list (map f xs)"
  by (induction xs arbitrary: a) (simp_all add: add.assoc)

lemma fold_add_upt:
  "fold (\<lambda>i total. total + f i) [0..<n] (0::real) = (\<Sum>i<n. f i)"
  by (simp add: fold_add_sum sum_list_sum_nth atLeast0LessThan)

lemma area_at_height_nonneg: "0 \<le> area_at_height head h"
  by (simp add: area_at_height_def)

lemma volume_up_to_sum:
  "steps \<noteq> 0 \<Longrightarrow> volume_up_to head h steps =
     Inr (\<Sum>i<nat steps. area_at_height head
            (head_h1 head + real i * ((h - head_h1 head) / real_of_int steps))
          * ((h - head_h1 head) / real_of_int steps))"
  by (simp add: volume_up_to_def Let_def fold_add_upt)

lemma volume_up_to_500:
  "volume_up_to head h 500 =
     Inr (\<Sum>i<500. area_at_height head (head_h1 head + real i * ((h - head_h1 head) / 500))
          * ((h - head_h1 head) / 500))"
  using volume_up_to_sum [of 500 head h] by simp

lemma volume_up_to_500_nonneg:
  assumes "head_h1 head \<le> h" and "volume_up_to head h 500 = Inr v"
  shows "0 \<le> v"
proof -
  have "0 \<le> (\<Sum>i<500. area_at_height head (head_h1 head + real i * ((h - head_h1 head) / 500))
          * ((h - head_h1 head) / 500))"
    using assms(1) by (intro sum_nonneg mult_nonneg_nonneg area_at_height_nonneg) simp
  with assms(2) show ?thesis by (simp add: volume_up_to_500)
qed

lemma bisect_bounds:
  "low \<le> high \<Longrightarrow>
     \<exists>l h. bisect head V n low high = Inr (l, h) \<and> low \<le> l \<and> l \<le> h \<and> h \<le> high"
proof (induction n arbitrary: low high)
  case 0
  then show ?case by simp
next
  case (Suc n)
  let ?mid = "0.5 * (low + high)"
  obtain v where v: "volume_up_to head ?mid 500 = Inr v"
    using volume_up_to_500 by blast
  have m: "low \<le> ?mid" "?mid \<le> high" using Suc.prems by simp_all
  show ?case
  proof (cases "v < V")
    case True
    from Suc.IH [OF m(2)] obtain l h where
      "bisect head V n ?mid high = Inr (l, h)" "?mid \<le> l" "l \<le> h" "h \<le> high" by blast
    with True v m show ?thesis by (simp add: Let_def)
  next
    case False
    from Suc.IH [OF m(1)] obtain l h where
      "bisect head V n low ?mid = Inr (l, h)" "low \<le> l" "l \<le> h" "h \<le> ?mid" by blast
    with False v m show ?thesis by (simp add: Let_def)
  qed
qed

lemma solve_height_in_head_bounds:
  assumes "head_h1 head \<le> getattr_h3 head"
  shows "\<exists>x. solve_height_in_head V head 40 = Inr x \<and> head_h1 head \<le> x \<and> x \<le> getattr_h3 head"
proof -
  from bisect_bounds [OF assms, of head V 40] obtain l h where
    "bisect head V 40 (head_h1 head) (getattr_h3 head) = Inr (l, h)"
    "head_h1 head \<le> l" "l \<le> h" "h \<le> getattr_h3 head" by blast
  then have "solve_height_in_head V head 40 = Inr (0.5 * (l + h))"
    and "head_h1 head \<le> 0.5 * (l + h)" and "0.5 * (l + h) \<le> getattr_h3 head"
    by (simp_all add: solve_height_in_head_def)
  then show ?thesis by blast
qed

lemma liquid_height_from_volume_nonneg:
  assumes h1: "head_h1 head = 0" and top: "0 \<le> getattr_h3 head"
    and r: "0 < head_radius head" and L: "0 \<le> L"
  shows "\<exists>lh. liquid_height_from_volume V head L = Inr lh \<and> 0 \<le> lh"
proof -
  obtain Vh where Vh: "max_head_volume head = Inr Vh"
    by (simp add: max_head_volume_def volume_up_to_500)
  have le: "head_h1 head \<le> getattr_h3 head" using h1 top by simp
  have A: "0 < pi * (head_radius head)\<^sup>2" using r by simp
  show ?thesis
  proof (cases "V \<le> Vh")
    case True
    from solve_height_in_head_bounds [OF le, of V] obtain x where
      "solve_height_in_head V head 40 = Inr x" "head_h1 head \<le> x" by blast
    with True Vh h1 show ?thesis by (simp add: liquid_height_from_volume_def Let_def)
  next
    case False
    show ?thesis
    proof (cases "V - Vh \<le> pi * (head_radius head)\<^sup>2 * L")
      case True
      have "0 \<le> (V - Vh) / (pi * (head_radius head)\<^sup>2)"
        using False A by (intro divide_nonneg_pos) simp_all
      with \<open>\<not> V \<le> Vh\<close> True Vh top A r show ?thesis
        by (simp add: liquid_height_from_volume_def Let_def)
    next
      case F2: False
      from solve_height_in_head_bounds [OF le, of "V - Vh - pi * (head_radius head)\<^sup>2 * L"]
      obtain x where
        "solve_height_in_head (V - Vh - pi * (head_radius head)\<^sup>2 * L) head 40 = Inr x"
        "head_h1 head \<le> x" by blast
      with \<open>\<not> V \<le> Vh\<close> F2 Vh h1 top L show ?thesis
        by (simp add: liquid_height_from_volume_def Let_def)
    qed
  qed
qed

lemma head_wetted_area_up_to_returns:
  "steps \<noteq> 0 \<Longrightarrow> \<exists>a. head_wetted_area_up_to h head steps = Inr a"
  by (simp add: head_wetted_area_up_to_def Let_def)

lemma head_wetted_area_up_to_low:
  "h \<le> head_h1 head \<Longrightarrow> head_wetted_area_up_to h head steps = Inr 0"
  by (simp add: head_wetted_area_up_to_def Let_def)

lemma wetted_area_up_to_height_returns:
  assumes "0 \<le> L" and "steps \<noteq> 0"
  shows "\<exists>a. wetted_area_up_to_height (PyFloat H) (Some head) (PyFloat L) steps = Inr a"
proof -
  obtain a1 where a1: "head_wetted_area_up_to H head steps = Inr a1"
    using head_wetted_area_up_to_returns [OF assms(2)] by blast
  obtain a2 where a2: "head_wetted_area_up_to (getattr_h3 head) head steps = Inr a2"
    using head_wetted_area_up_to_returns [OF assms(2)] by blast
  obtain a3 where a3: "head_wetted_area_up_to (H - (getattr_h3 head + L)) head steps = Inr a3"
    using head_wetted_area_up_to_returns [OF assms(2)] by blast
  show ?thesis
    using assms(1) a1 a2 a3 by (simp add: wetted_area_up_to_height_def Let_def)
qed

lemma wetted_area_up_to_height_zero:
  assumes "head_h1 head = 0" and "0 \<le> getattr_h3 head" and "0 \<le> L"
  shows "wetted_area_up_to_height (PyFloat 0) (Some head) (PyFloat L) steps = Inr 0"
  using assms by (simp add: wetted_area_up_to_height_def Let_def head_wetted_area_up_to_low)

lemma post_init_sqrt_arg:
  fixes d mj mn :: real
  assumes "0 < d" and "mn < 1 / 2" and "1 / 2 < mj"
  shows "0 < (mj * d - mn * d)\<^sup>2 - (d / 2 - mn * d)\<^sup>2"
proof -
  have "(mj * d - mn * d)\<^sup>2 - (d / 2 - mn * d)\<^sup>2 = d\<^sup>2 * ((mj - 1 / 2) * (mj + 1 / 2 - 2 * mn))"
    by (simp add: power2_eq_square algebra_simps)
  moreover have "0 < (mj - 1 / 2) * (mj + 1 / 2 - 2 * mn)"
    using assms by (intro mult_pos_pos) simp_all
  ultimately show ?thesis using assms(1) by simp
qed

lemma post_init_asin_arg:
  fixes d mj mn :: real
  assumes "0 < d" and "mn < 1 / 2" and "1 / 2 < mj"
  shows "0 < ((d - 2 * (mn * d)) / 2) / (mj * d - mn * d)"
    and "((d - 2 * (mn * d)) / 2) / (mj * d - mn * d) < 1"
proof -
  have e: "((d - 2 * (mn * d)) / 2) / (mj * d - mn * d) = (1 / 2 - mn) / (mj - mn)"
  proof -
    have "(d - 2 * (mn * d)) / 2 = (1 / 2 - mn) * d" "mj * d - mn * d = (mj - mn) * d"
      by (simp_all add: field_simps)
    then show ?thesis using assms(1) by simp
  qed
  show "0 < ((d - 2 * (mn * d)) / 2) / (mj * d - mn * d)"
    unfolding e using assms by simp
  show "((d - 2 * (mn * d)) / 2) / (mj * d - mn * d) < 1"
    unfolding e using assms by simp
qed

lemma post_init_h3_pos:
  assumes "0 < d" and "0 \<le> mn" and "mn < 1 / 2" and "1 / 2 < mj"
  shows "0 < h3 (post_init mj mn d t)"
proof -
  let ?x = "(mj * d - mn * d)\<^sup>2 - (d / 2 - mn * d)\<^sup>2"
  have "?x = (mj * d)\<^sup>2 - d\<^sup>2 * (2 * mj * mn + 1 / 4 - mn)"
    by (simp add: power2_eq_square algebra_simps)
  moreover have "0 < 2 * mj * mn + 1 / 4 - mn"
  proof -
    have "0 \<le> mn * (2 * mj - 1)" using assms by (intro mult_nonneg_nonneg) simp_all
    then show ?thesis by (simp add: algebra_simps)
  qed
  then have "0 < d\<^sup>2 * (2 * mj * mn + 1 / 4 - mn)" using assms(1) by simp
  ultimately have "?x < (mj * d)\<^sup>2" by simp
  moreover have "0 \<le> mj * d" using assms by simp
  ultimately have "sqrt ?x < mj * d" by (intro real_less_lsqrt) simp_all
  then show ?thesis by (simp add: post_init_def Let_def)
qed

lemma post_init_h1 [simp]: "h1 (post_init mj mn d t) = 0"
  by (simp add: post_init_def Let_def)

lemma post_init_radius [simp]: "radius (post_init mj mn d t) = d / 2 - t"
  by (simp add: post_init_def Let_def)

lemma validate_head_dimensions_ok:
  "0 < d \<Longrightarrow> 0 \<le> t \<Longrightarrow> t < d / 2 \<Longrightarrow>
     validate_head_dimensions (PyFloat d) (PyFloat t) = Inr (d, t)"
  by (simp add: validate_head_dimensions_def)

lemma build_head_valid:
  assumes "ht \<in> set valid_head_types" and "0 < OD" and "0 \<le> tmm" and "tmm / 1000 < OD / 2"
  shows "\<exists>head. build_head (Str ht) (PyFloat OD) (PyFloat tmm) = Inr head
           \<and> head_h1 head = 0 \<and> 0 < getattr_h3 head \<and> 0 < head_radius head"
proof -
  have t0: "0 \<le> tmm / 1000" using assms(3) by simp
  note v = validate_head_dimensions_ok [OF assms(2) t0 assms(4)]
  have pre: "validate_positive (PyFloat OD) n1 = Inr OD"
     "validate_non_negative (PyFloat tmm) n2 = Inr tmm" for n1 n2
    using assms by (simp_all add: validate_positive_def validate_non_negative_def)
  consider "ht = ''ASME_FD''" | "ht = ''Ellipsoidal''" | "ht = ''Hemispherical''"
    using assms(1) by (auto simp: valid_head_types_def)
  then show ?thesis
  proof cases
    case 1
    have "build_head (Str ht) (PyFloat OD) (PyFloat tmm)
            = Inr (ASMEFDHead (post_init 1.00 0.06 OD (tmm / 1000)))"
      using assms 1 by (simp add: build_head_def pre new_ASMEFDHead_def v Let_def)
    moreover have "0 < h3 (post_init 1.00 0.06 OD (tmm / 1000))"
      using assms(2) by (intro post_init_h3_pos) simp_all
    ultimately show ?thesis using assms(4) by simp
  next
    case 2
    have "build_head (Str ht) (PyFloat OD) (PyFloat tmm)
            = Inr (Elliptical2to1Head (post_init 0.90 0.17 OD (tmm / 1000)))"
      using assms 2 by (simp add: build_head_def pre new_Elliptical2to1Head_def v Let_def)
    moreover have "0 < h3 (post_init 0.90 0.17 OD (tmm / 1000))"
      using assms(2) by (intro post_init_h3_pos) simp_all
    ultimately show ?thesis using assms(4) by simp
  next
    case 3
    have "build_head (Str ht) (PyFloat OD) (PyFloat tmm)
            = Inr (HemisphericalHead
                     \<lparr>hs_diameter = OD, hs_thickness = tmm / 1000, hs_radius = OD / 2 - tmm / 1000,
                      head_depth = OD / 2 - tmm / 1000, hs_h1 = 0, hs_h2 = OD / 2 - tmm / 1000\<rparr>)"
      using assms 3 by (simp add: build_head_def pre new_HemisphericalHead_def v Let_def)
    then show ?thesis using assms(4) by simp
  qed
qed

lemma wetted_area_from_fill_volume_unfold:
  assumes "ht \<in> set valid_head_types" and "0 < OD" and "0 \<le> tmm" and "tmm / 1000 < OD / 2"
    and "0 \<le> L" and "0 \<le> bottom" and "0 \<le> fire" and "0 \<le> fill" and "10 \<le> steps"
    and bh: "build_head (Str ht) (PyFloat OD) (PyFloat tmm) = Inr head"
    and mv: "max_head_volume head = Inr V_head"
  shows "wetted_area_from_fill_volume (Str ''Vertical'') (Str ht) (PyFloat L) (PyFloat OD)
           (PyFloat tmm) (PyFloat bottom) (PyFloat fire) (PyFloat fill) steps =
    (if fill > V_head * 2 + pi * (head_radius head)\<^sup>2 * L
     then Inl (CapacityExceeded fill (V_head * 2 + pi * (head_radius head)\<^sup>2 * L))
     else and_then (liquid_height_from_volume fill head L) (\<lambda>lh.
       if fire - bottom \<le> 0
       then Inr \<lparr>liquid_height_m = lh, liquid_height_exposed_m = 0, wetted_area_m2 = 0\<rparr>
       else and_then (wetted_area_up_to_height (PyFloat (min lh (fire - bottom))) (Some head)
                        (PyFloat L) steps)
              (\<lambda>wa. Inr \<lparr>liquid_height_m = lh,
                          liquid_height_exposed_m = min lh (fire - bottom),
                          wetted_area_m2 = wa\<rparr>)))"
proof -
  have pre: "validate_positive (PyFloat OD) n1 = Inr OD"
     "validate_non_negative (PyFloat tmm) n2 = Inr tmm"
     "validate_non_negative (PyFloat L) n3 = Inr L"
     "validate_non_negative (PyFloat bottom) n4 = Inr bottom"
     "validate_non_negative (PyFloat fire) n5 = Inr fire"
     "validate_non_negative (PyFloat fill) n6 = Inr fill"
     "validate_positive_int steps n7 10 = Inr steps" for n1 n2 n3 n4 n5 n6 n7
    using assms
    by (simp_all add: validate_positive_def validate_non_negative_def validate_positive_int_def)
  have ok: "in_valid_head_types (Str ht)" "\<not> OD / 2 \<le> tmm / 1000"
    using assms by simp_all
  show ?thesis
    unfolding wetted_area_from_fill_volume_def
    by (simp only: pystr.case pre ok and_then_Inr Let_def bh mv if_False if_True
          not_True_eq_False not_False_eq_True simp_thms)
qed

lemma validate_positive_Inr:
  "validate_positive (PyFloat x) n = Inr y \<Longrightarrow> y = x \<and> 0 < x"
  by (simp add: validate_positive_def split: if_splits)

lemma validate_non_negative_Inr:
  "validate_non_negative (PyFloat x) n = Inr y \<Longrightarrow> y = x \<and> 0 \<le> x"
  by (simp add: validate_non_negative_def split: if_splits)

lemma and_then_eq_Inr:
  "and_then m f = Inr r \<Longrightarrow> \<exists>x. m = Inr x \<and> f x = Inr r"
  by (cases m) simp_all

lemma wetted_area_from_fill_volume_valid_input:
  assumes "wetted_area_from_fill_volume (Str ori) (Str ht) (PyFloat L) (PyFloat OD)
             (PyFloat tmm) (PyFloat bottom) (PyFloat fire) (PyFloat fill) steps = Inr r"
  shows "ori = ''Vertical'' \<and> ht \<in> set valid_head_types \<and> 0 < OD \<and> 0 \<le> tmm
       \<and> tmm / 1000 < OD / 2 \<and> 0 \<le> L \<and> 0 \<le> bottom \<and> 0 \<le> fire \<and> 0 \<le> fill
       \<and> 10 \<le> steps"
proof -
  let ?rest = "\<lambda>OD' tmm' L' bottom' fire' fill' stp. 
          let thickness_m = tmm' / 1000 in
          if thickness_m \<ge> OD' / 2 then Inl (ThicknessTooLarge tmm' (OD' / 2 * 1000))
          else
          and_then (build_head (Str ht) (PyFloat OD') (PyFloat tmm')) (\<lambda>head.
            let H_head = getattr_h3 head;
                H_total = H_head + L' + H_head
            in
            and_then (max_head_volume head) (\<lambda>V_head.
              let R = head_radius head;
                  A_cyl = pi * R\<^sup>2;
                  V_max = V_head * 2 + A_cyl * L'
              in
              if fill' > V_max then Inl (CapacityExceeded fill' V_max)
              else
              and_then (liquid_height_from_volume fill' head L') (\<lambda>lh.
                let liquid_level_from_grade = bottom' + lh;
                    fire_limit_from_vessel_bottom = fire' - bottom'
                in
                if fire_limit_from_vessel_bottom \<le> 0 then
                  Inr \<lparr>liquid_height_m = lh, liquid_height_exposed_m = 0,
                       wetted_area_m2 = 0\<rparr>
                else
                  let exposed = min lh fire_limit_from_vessel_bottom
                  in and_then (wetted_area_up_to_height (PyFloat exposed) (Some head)
                                 (PyFloat L') stp) (\<lambda>wa.
                       Inr \<lparr>liquid_height_m = lh, liquid_height_exposed_m = exposed,
                            wetted_area_m2 = wa\<rparr>))))"
  from assms have ori: "ori = ''Vertical''" and ht: "ht \<in> set valid_head_types"
    by (auto simp: wetted_area_from_fill_volume_def split: if_splits)
  from assms ori ht have
    "and_then (validate_positive (PyFloat OD) ''Error with Outer Diameter input'') (\<lambda>OD.
        and_then (validate_non_negative (PyFloat tmm) ''Error with Shell Thickness input'') (\<lambda>tmm.
        and_then (validate_non_negative (PyFloat L) ''Error with Shell Height input'') (\<lambda>L.
        and_then (validate_non_negative (PyFloat bottom)
                    ''Error with Surface to Vessel Bottom Height input'') (\<lambda>bottom.
        and_then (validate_non_negative (PyFloat fire) ''Error with Fire Height input'') (\<lambda>fire.
        and_then (validate_non_negative (PyFloat fill)
                    ''Error with Normal Fill Volume input'') (\<lambda>fill.
        and_then (validate_positive_int steps ''Integration steps'' 10) (\<lambda>stp.
          ?rest OD tmm L bottom fire fill stp))))))) = Inr r"
    by (simp add: wetted_area_from_fill_volume_def)
  then obtain OD' tmm' L' bottom' fire' fill' stp where
    v: "validate_positive (PyFloat OD) ''Error with Outer Diameter input'' = Inr OD'"
       "validate_non_negative (PyFloat tmm) ''Error with Shell Thickness input'' = Inr tmm'"
       "validate_non_negative (PyFloat L) ''Error with Shell Height input'' = Inr L'"
       "validate_non_negative (PyFloat bottom)
                    ''Error with Surface to Vessel Bottom Height input'' = Inr bottom'"
       "validate_non_negative (PyFloat fire) ''Error with Fire Height input'' = Inr fire'"
       "validate_non_negative (PyFloat fill) ''Error with Normal Fill Volume input'' = Inr fill'"
       "validate_positive_int steps ''Integration steps'' 10 = Inr stp"
    and rest: "?rest OD' tmm' L' bottom' fire' fill' stp = Inr r"
    by (blast dest!: and_then_eq_Inr)
  from v(1) have a: "OD' = OD" "0 < OD" using validate_positive_Inr by blast+
  from v(2) have b: "tmm' = tmm" "0 \<le> tmm" using validate_non_negative_Inr by blast+
  from v(3) have c: "0 \<le> L" using validate_non_negative_Inr by blast
  from v(4) have d: "0 \<le> bottom" using validate_non_negative_Inr by blast
  from v(5) have e: "0 \<le> fire" using validate_non_negative_Inr by blast
  from v(6) have f: "0 \<le> fill" using validate_non_negative_Inr by blast
  from v(7) have g: "10 \<le> steps" by (simp add: validate_positive_int_def split: if_splits)
  have h: "tmm / 1000 < OD / 2"
  proof (rule ccontr)
    assume "\<not> tmm / 1000 < OD / 2"
    then have "OD' / 2 \<le> tmm' / 1000" using a b by simp
    then have "?rest OD' tmm' L' bottom' fire' fill' stp = Inl (ThicknessTooLarge tmm' (OD' / 2 * 1000))"
      by (simp only: Let_def if_True)
    with rest show False by simp
  qed
  from ori ht a b c d e f g h show ?thesis by simp
qed

lemma max_head_volume_returns: "\<exists>V_head. max_head_volume head = Inr V_head"
  by (simp add: max_head_volume_def volume_up_to_500)

lemma max_head_volume_nonneg:
  "head_h1 head \<le> getattr_h3 head \<Longrightarrow> max_head_volume head = Inr V_head \<Longrightarrow> 0 \<le> V_head"
  unfolding max_head_volume_def by (rule volume_up_to_500_nonneg)

lemma wetted_area_from_fill_volume_returns:
  assumes "ht \<in> set valid_head_types" and "0 < OD" and "0 \<le> tmm" and "tmm / 1000 < OD / 2"
    and "0 \<le> L" and "0 \<le> bottom" and "0 \<le> fire" and "0 \<le> fill" and "10 \<le> steps"
    and bh: "build_head (Str ht) (PyFloat OD) (PyFloat tmm) = Inr head"
    and mv: "max_head_volume head = Inr V_head"
    and cap: "fill \<le> V_head * 2 + pi * (head_radius head)\<^sup>2 * L"
  shows "\<exists>r. wetted_area_from_fill_volume (Str ''Vertical'') (Str ht) (PyFloat L) (PyFloat OD)
           (PyFloat tmm) (PyFloat bottom) (PyFloat fire) (PyFloat fill) steps = Inr r"
proof -
  from build_head_valid [OF assms(1-4)] bh have
    hd: "head_h1 head = 0" "0 < getattr_h3 head" "0 < head_radius head" by auto
  from hd(2) have top: "0 \<le> getattr_h3 head" by simp
  from liquid_height_from_volume_nonneg [OF hd(1) top hd(3) assms(5), of fill]
  obtain lh where lh: "liquid_height_from_volume fill head L = Inr lh" by blast
  have "steps \<noteq> 0" using assms(9) by simp
  from wetted_area_up_to_height_returns [OF assms(5) this, of "min lh (fire - bottom)" head]
  obtain wa where wa: "wetted_area_up_to_height (PyFloat (min lh (fire - bottom))) (Some head)
                        (PyFloat L) steps = Inr wa" by blast
  show ?thesis
    using cap lh wa
    by (simp add: wetted_area_from_fill_volume_unfold [OF assms(1-9) bh mv])
qed


lemma hemisphere_radius_at_height_le:
  assumes "0 \<le> hs_radius s"
  shows "radius_at_height (HemisphericalHead s) h \<le> hs_radius s"
    and "0 \<le> radius_at_height (HemisphericalHead s) h"
proof -
  have "sqrt (max ((hs_radius s)\<^sup>2 - (hs_radius s - h)\<^sup>2) 0) \<le> sqrt ((hs_radius s)\<^sup>2)"
    by (intro real_sqrt_le_mono) simp
  also have "\<dots> = hs_radius s" using assms by simp
  finally show "radius_at_height (HemisphericalHead s) h \<le> hs_radius s"
    by (simp add: Let_def)
  show "0 \<le> radius_at_height (HemisphericalHead s) h"
    using assms by (simp add: Let_def)
qed

lemma hemisphere_volume_le:
  assumes "0 \<le> hs_radius s" and "hs_h1 s \<le> h"
    and "volume_up_to (HemisphericalHead s) h 500 = Inr v"
  shows "v \<le> pi * (hs_radius s)\<^sup>2 * (h - hs_h1 s)"
proof -
  let ?dh = "(h - hs_h1 s) / 500"
  have dh: "0 \<le> ?dh" using assms(2) by simp
  have a: "area_at_height (HemisphericalHead s) x \<le> pi * (hs_radius s)\<^sup>2" for x
    unfolding area_at_height_def Let_def
    using hemisphere_radius_at_height_le [OF assms(1), of x]
    by (intro mult_left_mono power_mono) simp_all
  have "v = (\<Sum>i<500. area_at_height (HemisphericalHead s) (hs_h1 s + real i * ?dh) * ?dh)"
    using assms(3) by (simp add: volume_up_to_500)
  also have "\<dots> \<le> (\<Sum>i<(500::nat). pi * (hs_radius s)\<^sup>2 * ?dh)"
    by (intro sum_mono mult_right_mono a dh)
  also have "\<dots> = pi * (hs_radius s)\<^sup>2 * (h - hs_h1 s)" by simp
  finally show ?thesis .
qed


section \<open>Vessel wetted area: results\<close>

text \<open>
  Claim C6. On an otherwise valid input (vertical orientation, one of the three head
  types, positive diameter, thickness below the radius, non-negative lengths, heights and
  fill volume, at least 10 steps) the head is built, its capacity
  \<open>V_max = 2 V_head + \<pi> R\<^sup>2 L\<close> is computed, and a fill volume strictly above
  \<open>V_max\<close> raises the capacity error carrying both volumes, while a fill volume of at
  most \<open>V_max\<close> makes the call return a result (no error, no clamping).
\<close>

theorem wetted_area_from_fill_volume_capacity:
  assumes "ht \<in> set valid_head_types" and "0 < OD" and "0 \<le> tmm" and "tmm / 1000 < OD / 2"
    and "0 \<le> L" and "0 \<le> bottom" and "0 \<le> fire" and "0 \<le> fill" and "10 \<le> steps"
  shows "\<exists>head V_head.
           build_head (Str ht) (PyFloat OD) (PyFloat tmm) = Inr head
         \<and> max_head_volume head = Inr V_head
         \<and> (V_head * 2 + pi * (head_radius head)\<^sup>2 * L < fill \<longrightarrow>
              wetted_area_from_fill_volume (Str ''Vertical'') (Str ht) (PyFloat L) (PyFloat OD)
                (PyFloat tmm) (PyFloat bottom) (PyFloat fire) (PyFloat fill) steps
              = Inl (CapacityExceeded fill (V_head * 2 + pi * (head_radius head)\<^sup>2 * L)))
         \<and> (fill \<le> V_head * 2 + pi * (head_radius head)\<^sup>2 * L \<longrightarrow>
              (\<exists>r. wetted_area_from_fill_volume (Str ''Vertical'') (Str ht) (PyFloat L)
                     (PyFloat OD) (PyFloat tmm) (PyFloat bottom) (PyFloat fire) (PyFloat fill)
                     steps = Inr r))"
proof -
  from build_head_valid [OF assms(1-4)] obtain head where
    bh: "build_head (Str ht) (PyFloat OD) (PyFloat tmm) = Inr head" by blast
  obtain V_head where mv: "max_head_volume head = Inr V_head"
    using max_head_volume_returns by blast
  have over: "wetted_area_from_fill_volume (Str ''Vertical'') (Str ht) (PyFloat L) (PyFloat OD)
                (PyFloat tmm) (PyFloat bottom) (PyFloat fire) (PyFloat fill) steps
              = Inl (CapacityExceeded fill (V_head * 2 + pi * (head_radius head)\<^sup>2 * L))"
    if "V_head * 2 + pi * (head_radius head)\<^sup>2 * L < fill"
    using that by (simp add: wetted_area_from_fill_volume_unfold [OF assms bh mv])
  have within: "\<exists>r. wetted_area_from_fill_volume (Str ''Vertical'') (Str ht) (PyFloat L)
                     (PyFloat OD) (PyFloat tmm) (PyFloat bottom) (PyFloat fire) (PyFloat fill)
                     steps = Inr r"
    if "fill \<le> V_head * 2 + pi * (head_radius head)\<^sup>2 * L"
    using wetted_area_from_fill_volume_returns [OF assms bh mv that] .
  from bh mv over within show ?thesis by blast
qed


theorem wetted_area_from_fill_volume_capacity_witness:
  "(\<exists>r. wetted_area_from_fill_volume (Str ''Vertical'') (Str ''ASME_FD'') (PyFloat 5)
          (PyFloat 3) (PyFloat 10) (PyFloat 0.5) (PyFloat 9.14) (PyFloat 0) 500 = Inr r)
   \<and> (\<exists>v. wetted_area_from_fill_volume (Str ''Vertical'') (Str ''Hemispherical'') (PyFloat 1)
          (PyFloat 2) (PyFloat 0) (PyFloat 0) (PyFloat 1) (PyFloat 20) 500
            = Inl (CapacityExceeded 20 v) \<and> v < 20)"
proof
  have ht: "''ASME_FD'' \<in> set valid_head_types" by (simp add: valid_head_types_def)
  from wetted_area_from_fill_volume_capacity [of "''ASME_FD''" 3 10 5 "0.5" "9.14" 0 500] ht
  obtain head V_head where
    bh: "build_head (Str ''ASME_FD'') (PyFloat 3) (PyFloat 10) = Inr head"
    and mv: "max_head_volume head = Inr V_head"
    and within: "0 \<le> V_head * 2 + pi * (head_radius head)\<^sup>2 * 5 \<longrightarrow>
              (\<exists>r. wetted_area_from_fill_volume (Str ''Vertical'') (Str ''ASME_FD'') (PyFloat 5)
                     (PyFloat 3) (PyFloat 10) (PyFloat 0.5) (PyFloat 9.14) (PyFloat 0) 500
                   = Inr r)"
    by auto
  from build_head_valid [of "''ASME_FD''" 3 10] ht bh have
    "head_h1 head = 0" "0 < getattr_h3 head" by auto
  then have "0 \<le> V_head" using max_head_volume_nonneg [OF _ mv] by simp
  then have "0 \<le> V_head * 2 + pi * (head_radius head)\<^sup>2 * 5" by simp
  with within show "\<exists>r. wetted_area_from_fill_volume (Str ''Vertical'') (Str ''ASME_FD'')
       (PyFloat 5) (PyFloat 3) (PyFloat 10) (PyFloat 0.5) (PyFloat 9.14) (PyFloat 0) 500 = Inr r"
    by blast
next
  let ?s = "\<lparr>hs_diameter = 2, hs_thickness = 0, hs_radius = 1, head_depth = 1,
             hs_h1 = 0, hs_h2 = (1::real)\<rparr>"
  have ht: "''Hemispherical'' \<in> set valid_head_types" by (simp add: valid_head_types_def)
  have bh0: "build_head (Str ''Hemispherical'') (PyFloat 2) (PyFloat 0) = Inr (HemisphericalHead ?s)"
    by (simp add: build_head_def validate_positive_def validate_non_negative_def
          new_HemisphericalHead_def validate_head_dimensions_def Let_def)
  from wetted_area_from_fill_volume_capacity [of "''Hemispherical''" 2 0 1 0 1 20 500] ht
  obtain head V_head where
    bh: "build_head (Str ''Hemispherical'') (PyFloat 2) (PyFloat 0) = Inr head"
    and mv: "max_head_volume head = Inr V_head"
    and over: "V_head * 2 + pi * (head_radius head)\<^sup>2 * 1 < 20 \<longrightarrow>
              wetted_area_from_fill_volume (Str ''Vertical'') (Str ''Hemispherical'') (PyFloat 1)
                (PyFloat 2) (PyFloat 0) (PyFloat 0) (PyFloat 1) (PyFloat 20) 500
              = Inl (CapacityExceeded 20 (V_head * 2 + pi * (head_radius head)\<^sup>2 * 1))"
    by auto
  from bh bh0 have head: "head = HemisphericalHead ?s" by simp
  from mv have "volume_up_to (HemisphericalHead ?s) 1 500 = Inr V_head"
    by (simp add: head max_head_volume_def)
  from hemisphere_volume_le [OF _ _ this] have "V_head \<le> pi" by simp
  with pi_less_4 have small: "V_head * 2 + pi * (head_radius head)\<^sup>2 * 1 < 20"
    by (simp add: head)
  with over show "\<exists>v. wetted_area_from_fill_volume (Str ''Vertical'') (Str ''Hemispherical'')
          (PyFloat 1) (PyFloat 2) (PyFloat 0) (PyFloat 0) (PyFloat 1) (PyFloat 20) 500
            = Inl (CapacityExceeded 20 v) \<and> v < 20"
    by blast
qed


lemma map_sum_and_then:
  "map_sum id g (and_then m f) = and_then m (\<lambda>x. map_sum id g (f x))"
  by (cases m) simp_all

lemma wetted_area_from_fill_volume_traced_result:
  "map_sum id fst (wetted_area_from_fill_volume_traced ori ht L OD tmm bottom fire fill steps)
     = wetted_area_from_fill_volume ori ht L OD tmm bottom fire fill steps"
  unfolding wetted_area_from_fill_volume_traced_def wetted_area_from_fill_volume_def
  by (simp add: and_then_def Let_def split: pystr.splits sum.splits)

lemma head_wetted_area_up_to_sum:
  assumes "0 < steps"
  shows "head_wetted_area_up_to h head steps = Inr (spec_head_surface_sum head h (nat steps))"
proof -
  from zero_less_imp_eq_int [OF assms] obtain n where n: "steps = int n" and n0: "n \<noteq> 0"
    by blast
  show ?thesis
    unfolding n
    by (simp add: head_wetted_area_up_to_def spec_head_surface_sum_def spec_forward_slope_def
          Let_def fold_add_upt n0)
qed

lemma bisect_width:
  "bisect head V n low high = Inr (l, h) \<Longrightarrow> h - l = (high - low) / 2 ^ n"
proof (induction n arbitrary: low high)
  case 0
  then show ?case by simp
next
  case (Suc n)
  let ?mid = "0.5 * (low + high)"
  obtain v where v: "volume_up_to head ?mid 500 = Inr v"
    using volume_up_to_500 by blast
  show ?case
  proof (cases "v < V")
    case True
    with Suc.prems v have "bisect head V n ?mid high = Inr (l, h)" by (simp add: Let_def)
    from Suc.IH [OF this] show ?thesis by (simp add: field_simps)
  next
    case False
    with Suc.prems v have "bisect head V n low ?mid = Inr (l, h)" by (simp add: Let_def)
    from Suc.IH [OF this] show ?thesis by (simp add: field_simps)
  qed
qed

lemma wetted_area_from_fill_volume_traced_unfold:
  assumes "ht \<in> set valid_head_types" and "0 < OD" and "0 \<le> tmm" and "tmm / 1000 < OD / 2"
    and "0 \<le> L" and "0 \<le> bottom" and "0 \<le> fire" and "0 \<le> fill" and "10 \<le> steps"
    and bh: "build_head (Str ht) (PyFloat OD) (PyFloat tmm) = Inr head"
    and mv: "max_head_volume head = Inr V_head"
  shows "wetted_area_from_fill_volume_traced (Str ''Vertical'') (Str ht) (PyFloat L) (PyFloat OD)
           (PyFloat tmm) (PyFloat bottom) (PyFloat fire) (PyFloat fill) steps =
    (if fill > V_head * 2 + pi * (head_radius head)\<^sup>2 * L
     then Inl (CapacityExceeded fill (V_head * 2 + pi * (head_radius head)\<^sup>2 * L))
     else and_then (liquid_height_from_volume fill head L) (\<lambda>lh.
       if fire - bottom \<le> 0
       then Inr (\<lparr>liquid_height_m = lh, liquid_height_exposed_m = 0, wetted_area_m2 = 0\<rparr>, [])
       else and_then (wetted_area_up_to_height (PyFloat (min lh (fire - bottom))) (Some head)
                        (PyFloat L) steps)
              (\<lambda>wa. Inr (\<lparr>liquid_height_m = lh,
                           liquid_height_exposed_m = min lh (fire - bottom),
                           wetted_area_m2 = wa\<rparr>, [min lh (fire - bottom)]))))"
proof -
  have pre: "validate_positive (PyFloat OD) n1 = Inr OD"
     "validate_non_negative (PyFloat tmm) n2 = Inr tmm"
     "validate_non_negative (PyFloat L) n3 = Inr L"
     "validate_non_negative (PyFloat bottom) n4 = Inr bottom"
     "validate_non_negative (PyFloat fire) n5 = Inr fire"
     "validate_non_negative (PyFloat fill) n6 = Inr fill"
     "validate_positive_int steps n7 10 = Inr steps" for n1 n2 n3 n4 n5 n6 n7
    using assms
    by (simp_all add: validate_positive_def validate_non_negative_def validate_positive_int_def)
  have ok: "in_valid_head_types (Str ht)" "\<not> OD / 2 \<le> tmm / 1000"
    using assms by simp_all
  show ?thesis
    unfolding wetted_area_from_fill_volume_traced_def
    by (simp only: pystr.case pre ok and_then_Inr Let_def bh mv if_False if_True
          not_True_eq_False not_False_eq_True simp_thms)
qed

lemma liquid_height_from_volume_cases:
  assumes mv: "max_head_volume head = Inr V_head" and R: "0 < head_radius head"
    and lh: "liquid_height_from_volume fill head L = Inr lh"
  shows "(fill \<le> V_head \<longrightarrow>
           (\<exists>lo hi. bisect head fill 40 (head_h1 head) (getattr_h3 head) = Inr (lo, hi)
              \<and> hi - lo = (getattr_h3 head - head_h1 head) / 2 ^ 40
              \<and> lh = (lo + hi) / 2))
       \<and> (V_head < fill \<and> fill - V_head \<le> pi * (head_radius head)\<^sup>2 * L \<longrightarrow>
            lh = getattr_h3 head + (fill - V_head) / (pi * (head_radius head)\<^sup>2))
       \<and> (V_head < fill \<and> pi * (head_radius head)\<^sup>2 * L < fill - V_head \<longrightarrow>
           (\<exists>lo hi. bisect head (fill - V_head - pi * (head_radius head)\<^sup>2 * L) 40
                       (head_h1 head) (getattr_h3 head) = Inr (lo, hi)
              \<and> hi - lo = (getattr_h3 head - head_h1 head) / 2 ^ 40
              \<and> lh = getattr_h3 head + L + (lo + hi) / 2))"
proof (intro conjI impI)
  assume a: "fill \<le> V_head"
  with lh mv have "solve_height_in_head fill head 40 = Inr lh"
    by (simp add: liquid_height_from_volume_def Let_def)
  then obtain lo hi where b: "bisect head fill 40 (head_h1 head) (getattr_h3 head) = Inr (lo, hi)"
    and m: "lh = 0.5 * (lo + hi)"
    by (auto simp: solve_height_in_head_def dest!: and_then_eq_Inr)
  from bisect_width [OF b] m b
  show "\<exists>lo hi. bisect head fill 40 (head_h1 head) (getattr_h3 head) = Inr (lo, hi)
              \<and> hi - lo = (getattr_h3 head - head_h1 head) / 2 ^ 40
              \<and> lh = (lo + hi) / 2"
    by (intro exI [of _ lo] exI [of _ hi]) simp
next
  assume a: "V_head < fill \<and> fill - V_head \<le> pi * (head_radius head)\<^sup>2 * L"
  with lh mv R show "lh = getattr_h3 head + (fill - V_head) / (pi * (head_radius head)\<^sup>2)"
    by (simp add: liquid_height_from_volume_def Let_def split: if_splits)
next
  let ?V = "fill - V_head - pi * (head_radius head)\<^sup>2 * L"
  assume a: "V_head < fill \<and> pi * (head_radius head)\<^sup>2 * L < fill - V_head"
  with lh mv have "and_then (solve_height_in_head ?V head 40)
                     (\<lambda>h_in_top. Inr (getattr_h3 head + L + h_in_top)) = Inr lh"
    by (simp add: liquid_height_from_volume_def Let_def)
  then obtain x where x: "solve_height_in_head ?V head 40 = Inr x"
    and lhx: "lh = getattr_h3 head + L + x"
    by (auto dest!: and_then_eq_Inr)
  from x obtain lo hi where b: "bisect head ?V 40 (head_h1 head) (getattr_h3 head) = Inr (lo, hi)"
    and m: "x = 0.5 * (lo + hi)"
    by (auto simp: solve_height_in_head_def dest!: and_then_eq_Inr)
  from bisect_width [OF b] m b lhx
  show "\<exists>lo hi. bisect head ?V 40 (head_h1 head) (getattr_h3 head) = Inr (lo, hi)
              \<and> hi - lo = (getattr_h3 head - head_h1 head) / 2 ^ 40
              \<and> lh = getattr_h3 head + L + (lo + hi) / 2"
    by (intro exI [of _ lo] exI [of _ hi]) simp
qed

lemma wetted_area_up_to_height_cases:
  assumes "0 \<le> E" and "0 \<le> L" and "0 < steps"
  shows "wetted_area_up_to_height (PyFloat E) (Some head) (PyFloat L) steps =
     Inr (if E \<le> getattr_h3 head then spec_head_surface_sum head E (nat steps)
          else if E \<le> getattr_h3 head + L
            then spec_head_surface_sum head (getattr_h3 head) (nat steps)
                 + 2 * pi * head_radius head * (E - getattr_h3 head)
          else spec_head_surface_sum head (getattr_h3 head) (nat steps)
               + 2 * pi * head_radius head * L
               + spec_head_surface_sum head (E - (getattr_h3 head + L)) (nat steps))"
  using assms(1,2)
  by (simp add: wetted_area_up_to_height_def Let_def head_wetted_area_up_to_sum [OF assms(3)])

lemma traced_Inr_result:
  assumes "wetted_area_from_fill_volume_traced ori ht L OD tmm bottom fire fill steps = Inr (r, calls)"
  shows "wetted_area_from_fill_volume ori ht L OD tmm bottom fire fill steps = Inr r"
  using wetted_area_from_fill_volume_traced_result [of ori ht L OD tmm bottom fire fill steps]
  by (simp add: assms)

lemma traced_returns:
  assumes "wetted_area_from_fill_volume ori ht L OD tmm bottom fire fill steps = Inr r"
  shows "\<exists>calls. wetted_area_from_fill_volume_traced ori ht L OD tmm bottom fire fill steps
                   = Inr (r, calls)"
proof (cases "wetted_area_from_fill_volume_traced ori ht L OD tmm bottom fire fill steps")
  case (Inl e)
  with wetted_area_from_fill_volume_traced_result [of ori ht L OD tmm bottom fire fill steps] assms
  show ?thesis by simp
next
  case (Inr p)
  with wetted_area_from_fill_volume_traced_result [of ori ht L OD tmm bottom fire fill steps] assms
  show ?thesis by (cases p) simp
qed

lemma hemisphere_surface_sum_nonneg:
  assumes "0 \<le> hs_radius s" and "hs_h1 s \<le> hs_h2 s"
  shows "0 \<le> spec_head_surface_sum (HemisphericalHead s) h n"
proof (cases "h \<le> hs_h1 s")
  case True
  then show ?thesis by (simp add: spec_head_surface_sum_def)
next
  case False
  then have dh: "0 \<le> (min h (hs_h2 s) - hs_h1 s) / real n" using assms(2) by simp
  have nn: "0 \<le> (\<Sum>i<n. 2 * pi
            * radius_at_height (HemisphericalHead s)
                (hs_h1 s + real i * ((min h (hs_h2 s) - hs_h1 s) / real n))
            * sqrt (1 + (spec_forward_slope (HemisphericalHead s) (min h (hs_h2 s))
                           (hs_h1 s + real i * ((min h (hs_h2 s) - hs_h1 s) / real n)))\<^sup>2)
            * ((min h (hs_h2 s) - hs_h1 s) / real n))"
    using dh hemisphere_radius_at_height_le(2) [OF assms(1)]
    by (intro sum_nonneg mult_nonneg_nonneg) simp_all
  have "spec_head_surface_sum (HemisphericalHead s) h n = (\<Sum>i<n. 2 * pi
            * radius_at_height (HemisphericalHead s)
                (hs_h1 s + real i * ((min h (hs_h2 s) - hs_h1 s) / real n))
            * sqrt (1 + (spec_forward_slope (HemisphericalHead s) (min h (hs_h2 s))
                           (hs_h1 s + real i * ((min h (hs_h2 s) - hs_h1 s) / real n)))\<^sup>2)
            * ((min h (hs_h2 s) - hs_h1 s) / real n))"
    using False
    by (simp only: spec_head_surface_sum_def Let_def head_h1.simps getattr_h3.simps if_False)
  with nn show ?thesis by (simp only:)
qed

text \<open>
  Claim C4. Whenever \<open>wetted_area_from_fill_volume\<close> returns a result \<open>r\<close>:
  \<^item> its liquid height is the midpoint of the bracket left by 40 bisection steps on
    \<open>volume_up_to\<close> (a bracket of width \<open>(h3 - h1) / 2\<^sup>4\<^sup>0\<close>) when the fill volume fits in
    the bottom head, \<open>H_head + (V - V_head) / (\<pi> R\<^sup>2)\<close> when the level is in the shell,
    and \<open>H_head + L\<close> plus such a midpoint when it is in the top head;
  \<^item> its exposed height is \<open>min liquid_height (max 0 (fire_height - bottom_height))\<close>;
  \<^item> its wetted area is the surface sum up to the exposed height: the head sum alone
    within the bottom head, the full head sum plus \<open>2\<pi> R (H - H_head)\<close> within the shell,
    and the full head sum, the whole shell and a second head sum within the top head;
  \<^item> when \<open>fire_height - bottom_height \<le> 0\<close> the exposed height and the wetted area are
    \<open>0\<close> and \<open>wetted_area_up_to_height\<close> has not been called; otherwise it has been called
    once, at the exposed height.
\<close>

theorem wetted_area_from_fill_volume_figures:
  assumes "wetted_area_from_fill_volume_traced (Str ori) (Str ht) (PyFloat L) (PyFloat OD)
             (PyFloat tmm) (PyFloat bottom) (PyFloat fire) (PyFloat fill) steps = Inr (r, calls)"
  shows "\<exists>head V_head.
         wetted_area_from_fill_volume (Str ori) (Str ht) (PyFloat L) (PyFloat OD)
             (PyFloat tmm) (PyFloat bottom) (PyFloat fire) (PyFloat fill) steps = Inr r
       \<and> build_head (Str ht) (PyFloat OD) (PyFloat tmm) = Inr head
       \<and> max_head_volume head = Inr V_head
       \<and> (fill \<le> V_head \<longrightarrow>
           (\<exists>lo hi. bisect head fill 40 (head_h1 head) (getattr_h3 head) = Inr (lo, hi)
              \<and> hi - lo = (getattr_h3 head - head_h1 head) / 2 ^ 40
              \<and> liquid_height_m r = (lo + hi) / 2))
       \<and> (V_head < fill \<and> fill - V_head \<le> pi * (head_radius head)\<^sup>2 * L \<longrightarrow>
            liquid_height_m r
              = getattr_h3 head + (fill - V_head) / (pi * (head_radius head)\<^sup>2))
       \<and> (V_head < fill \<and> pi * (head_radius head)\<^sup>2 * L < fill - V_head \<longrightarrow>
           (\<exists>lo hi. bisect head (fill - V_head - pi * (head_radius head)\<^sup>2 * L) 40
                       (head_h1 head) (getattr_h3 head) = Inr (lo, hi)
              \<and> hi - lo = (getattr_h3 head - head_h1 head) / 2 ^ 40
              \<and> liquid_height_m r = getattr_h3 head + L + (lo + hi) / 2))
       \<and> liquid_height_exposed_m r = min (liquid_height_m r) (max 0 (fire - bottom))
       \<and> wetted_area_m2 r =
           (if liquid_height_exposed_m r \<le> getattr_h3 head
              then spec_head_surface_sum head (liquid_height_exposed_m r) (nat steps)
            else if liquid_height_exposed_m r \<le> getattr_h3 head + L
              then spec_head_surface_sum head (getattr_h3 head) (nat steps)
                   + 2 * pi * head_radius head * (liquid_height_exposed_m r - getattr_h3 head)
            else spec_head_surface_sum head (getattr_h3 head) (nat steps)
                 + 2 * pi * head_radius head * L
                 + spec_head_surface_sum head
                     (liquid_height_exposed_m r - (getattr_h3 head + L)) (nat steps))
       \<and> (fire - bottom \<le> 0 \<longrightarrow>
            calls = [] \<and> liquid_height_exposed_m r = 0 \<and> wetted_area_m2 r = 0)
       \<and> (0 < fire - bottom \<longrightarrow> calls = [liquid_height_exposed_m r])"
proof -
  note res = traced_Inr_result [OF assms]
  from wetted_area_from_fill_volume_valid_input [OF res] have
    ori: "ori = ''Vertical''" and
    v: "ht \<in> set valid_head_types" "0 < OD" "0 \<le> tmm" "tmm / 1000 < OD / 2"
       "0 \<le> L" "0 \<le> bottom" "0 \<le> fire" "0 \<le> fill" "10 \<le> steps"
    by simp_all
  from build_head_valid [OF v(1-4)] obtain head where
    bh: "build_head (Str ht) (PyFloat OD) (PyFloat tmm) = Inr head"
    and hd: "head_h1 head = 0" "0 < getattr_h3 head" "0 < head_radius head" by blast
  obtain V_head where mv: "max_head_volume head = Inr V_head"
    using max_head_volume_returns by blast
  from hd(2) have top: "0 \<le> getattr_h3 head" by simp
  from liquid_height_from_volume_nonneg [OF hd(1) top hd(3) v(5), of fill]
  obtain lh where lh: "liquid_height_from_volume fill head L = Inr lh" and lh0: "0 \<le> lh"
    by blast
  note u = wetted_area_from_fill_volume_traced_unfold [OF v bh mv]
  have cap: "\<not> V_head * 2 + pi * (head_radius head)\<^sup>2 * L < fill"
  proof
    assume "V_head * 2 + pi * (head_radius head)\<^sup>2 * L < fill"
    with assms ori show False by (simp add: u)
  qed
  have steps: "0 < steps" using v(9) by simp
  note lhc = liquid_height_from_volume_cases [OF mv hd(3) lh]
  let ?E = "min lh (max 0 (fire - bottom))"
  have E0: "0 \<le> ?E" using lh0 by simp
  note wa = wetted_area_up_to_height_cases [OF E0 v(5) steps, of head]
  have r: "r = \<lparr>liquid_height_m = lh, liquid_height_exposed_m = ?E,
              wetted_area_m2 =
                (if ?E \<le> getattr_h3 head then spec_head_surface_sum head ?E (nat steps)
                 else if ?E \<le> getattr_h3 head + L
                   then spec_head_surface_sum head (getattr_h3 head) (nat steps)
                        + 2 * pi * head_radius head * (?E - getattr_h3 head)
                 else spec_head_surface_sum head (getattr_h3 head) (nat steps)
                      + 2 * pi * head_radius head * L
                      + spec_head_surface_sum head (?E - (getattr_h3 head + L)) (nat steps))\<rparr>"
     and calls: "calls = (if fire - bottom \<le> 0 then [] else [?E])"
  proof -
    show "calls = (if fire - bottom \<le> 0 then [] else [?E])"
    proof (cases "fire - bottom \<le> 0")
      case True
      with assms ori cap lh show ?thesis by (simp add: u)
    next
      case False
      then have m: "max 0 (fire - bottom) = fire - bottom" by simp
      from assms ori cap lh False wa show ?thesis by (simp add: u m)
    qed
    show "r = \<lparr>liquid_height_m = lh, liquid_height_exposed_m = ?E,
              wetted_area_m2 =
                (if ?E \<le> getattr_h3 head then spec_head_surface_sum head ?E (nat steps)
                 else if ?E \<le> getattr_h3 head + L
                   then spec_head_surface_sum head (getattr_h3 head) (nat steps)
                        + 2 * pi * head_radius head * (?E - getattr_h3 head)
                 else spec_head_surface_sum head (getattr_h3 head) (nat steps)
                      + 2 * pi * head_radius head * L
                      + spec_head_surface_sum head (?E - (getattr_h3 head + L)) (nat steps))\<rparr>"
    proof (cases "fire - bottom \<le> 0")
      case True
      then have m: "max 0 (fire - bottom) = 0" by simp
      have z: "spec_head_surface_sum head 0 (nat steps) = 0"
        by (simp add: spec_head_surface_sum_def hd(1))
      from assms ori cap lh True lh0 top show ?thesis by (simp add: u m z)
    next
      case False
      then have m: "max 0 (fire - bottom) = fire - bottom" by simp
      from assms ori cap lh False wa show ?thesis by (simp add: u m)
    qed
  qed
  have early: "fire - bottom \<le> 0 \<longrightarrow>
            calls = [] \<and> liquid_height_exposed_m r = 0 \<and> wetted_area_m2 r = 0"
  proof
    assume a: "fire - bottom \<le> 0"
    then have m: "max 0 (fire - bottom) = 0" by simp
    have z: "spec_head_surface_sum head 0 (nat steps) = 0"
      by (simp add: spec_head_surface_sum_def hd(1))
    from a lh0 top show "calls = [] \<and> liquid_height_exposed_m r = 0 \<and> wetted_area_m2 r = 0"
      by (simp add: r calls m z)
  qed
  have late: "0 < fire - bottom \<longrightarrow> calls = [liquid_height_exposed_m r]"
    by (simp add: r calls)
  have fig: "liquid_height_m r = lh" "liquid_height_exposed_m r = ?E" by (simp_all add: r)
  have area: "wetted_area_m2 r =
           (if liquid_height_exposed_m r \<le> getattr_h3 head
              then spec_head_surface_sum head (liquid_height_exposed_m r) (nat steps)
            else if liquid_height_exposed_m r \<le> getattr_h3 head + L
              then spec_head_surface_sum head (getattr_h3 head) (nat steps)
                   + 2 * pi * head_radius head * (liquid_height_exposed_m r - getattr_h3 head)
            else spec_head_surface_sum head (getattr_h3 head) (nat steps)
                 + 2 * pi * head_radius head * L
                 + spec_head_surface_sum head
                     (liquid_height_exposed_m r - (getattr_h3 head + L)) (nat steps))"
    unfolding fig by (subst r) simp
  have ex: "liquid_height_exposed_m r = min (liquid_height_m r) (max 0 (fire - bottom))"
    by (simp only: fig)
  show ?thesis
    using res bh mv lhc [folded fig(1)] ex area early late by blast
qed

theorem wetted_area_from_fill_volume_figures_witness:
  "(\<exists>r. wetted_area_from_fill_volume_traced (Str ''Vertical'') (Str ''Hemispherical'')
           (PyFloat 5) (PyFloat 2) (PyFloat 0) (PyFloat 0.5) (PyFloat 9.14) (PyFloat 4) 500
          = Inr (r, [liquid_height_m r])
        \<and> 1 < liquid_height_m r \<and> liquid_height_m r \<le> 3
        \<and> liquid_height_exposed_m r = liquid_height_m r
        \<and> 0 < wetted_area_m2 r)
   \<and> (\<exists>r. wetted_area_from_fill_volume_traced (Str ''Vertical'') (Str ''Hemispherical'')
           (PyFloat 5) (PyFloat 2) (PyFloat 0) (PyFloat 0.5) (PyFloat 0.2) (PyFloat 4) 500
          = Inr (r, [])
        \<and> 1 < liquid_height_m r
        \<and> liquid_height_exposed_m r = 0 \<and> wetted_area_m2 r = 0)"
proof -
  let ?s = "\<lparr>hs_diameter = 2, hs_thickness = 0, hs_radius = 1, head_depth = 1,
             hs_h1 = 0, hs_h2 = (1::real)\<rparr>"
  let ?hd = "HemisphericalHead ?s"
  have ht: "''Hemispherical'' \<in> set valid_head_types" by (simp add: valid_head_types_def)
  have bh: "build_head (Str ''Hemispherical'') (PyFloat 2) (PyFloat 0) = Inr ?hd"
    by (simp add: build_head_def validate_positive_def validate_non_negative_def
          new_HemisphericalHead_def validate_head_dimensions_def Let_def)
  obtain V where mv: "max_head_volume ?hd = Inr V"
    using max_head_volume_returns by blast
  then have vol: "volume_up_to ?hd 1 500 = Inr V" by (simp add: max_head_volume_def)
  have V0: "0 \<le> V" using max_head_volume_nonneg [OF _ mv] by simp
  have "V \<le> pi" using hemisphere_volume_le [OF _ _ vol] by simp
  with pi_less_4 have V4: "V < 4" by linarith
  have p10: "10 \<le> pi * 5" using pi_ge_two by linarith
  have cap: "4 \<le> V * 2 + pi * (head_radius ?hd)\<^sup>2 * 5" using V0 p10 by simp
  have S0: "0 \<le> spec_head_surface_sum ?hd 1 500"
    by (rule hemisphere_surface_sum_nonneg) simp_all
  have q: "0 < (4 - V) / pi" using V4 by simp
  have "(4 - V) / pi \<le> 4 / 2"
    using V0 pi_ge_two by (intro frac_le) simp_all
  then have q2: "(4 - V) / pi \<le> 2" by simp
  have in_shell: "V < 4 \<and> 4 - V \<le> pi * (head_radius ?hd)\<^sup>2 * 5"
    using V4 V0 p10 by simp
  \<comment> \<open>fire above the liquid level\<close>
  from wetted_area_from_fill_volume_returns
         [of "''Hemispherical''" 2 0 5 "0.5" "9.14" 4 500, OF ht _ _ _ _ _ _ _ _ bh mv cap]
  obtain r1 where "wetted_area_from_fill_volume (Str ''Vertical'') (Str ''Hemispherical'')
      (PyFloat 5) (PyFloat 2) (PyFloat 0) (PyFloat 0.5) (PyFloat 9.14) (PyFloat 4) 500 = Inr r1"
    by auto
  from traced_returns [OF this] obtain c1 where
    t1: "wetted_area_from_fill_volume_traced (Str ''Vertical'') (Str ''Hemispherical'')
      (PyFloat 5) (PyFloat 2) (PyFloat 0) (PyFloat 0.5) (PyFloat 9.14) (PyFloat 4) 500
        = Inr (r1, c1)" by blast
  from wetted_area_from_fill_volume_figures [OF t1] bh mv in_shell
  have lh1: "liquid_height_m r1 = 1 + (4 - V) / pi"
    and e1: "liquid_height_exposed_m r1 = min (liquid_height_m r1) (max 0 (9.14 - 0.5))"
    and a1: "wetted_area_m2 r1 =
           (if liquid_height_exposed_m r1 \<le> 1
              then spec_head_surface_sum ?hd (liquid_height_exposed_m r1) 500
            else if liquid_height_exposed_m r1 \<le> 1 + 5
              then spec_head_surface_sum ?hd 1 500
                   + 2 * pi * 1 * (liquid_height_exposed_m r1 - 1)
            else spec_head_surface_sum ?hd 1 500 + 2 * pi * 1 * 5
                 + spec_head_surface_sum ?hd (liquid_height_exposed_m r1 - (1 + 5)) 500)"
    and k1: "c1 = [liquid_height_exposed_m r1]"
    by auto
  have lb1: "1 < liquid_height_m r1" "liquid_height_m r1 \<le> 3" using q q2 by (simp_all add: lh1)
  then have x1: "liquid_height_exposed_m r1 = liquid_height_m r1" by (simp add: e1)
  have cyl: "0 < 2 * pi * 1 * (liquid_height_m r1 - 1)" using lb1(1) by simp
  have "wetted_area_m2 r1 = spec_head_surface_sum ?hd 1 500
                   + 2 * pi * 1 * (liquid_height_m r1 - 1)"
    using lb1 by (simp add: a1 x1)
  with S0 cyl have p1: "0 < wetted_area_m2 r1" by linarith
  have first: "\<exists>r. wetted_area_from_fill_volume_traced (Str ''Vertical'') (Str ''Hemispherical'')
           (PyFloat 5) (PyFloat 2) (PyFloat 0) (PyFloat 0.5) (PyFloat 9.14) (PyFloat 4) 500
          = Inr (r, [liquid_height_m r])
        \<and> 1 < liquid_height_m r \<and> liquid_height_m r \<le> 3
        \<and> liquid_height_exposed_m r = liquid_height_m r
        \<and> 0 < wetted_area_m2 r"
    using t1 k1 x1 lb1 p1 by (intro exI [of _ r1]) simp
  \<comment> \<open>fire below the vessel bottom\<close>
  from wetted_area_from_fill_volume_returns
         [of "''Hemispherical''" 2 0 5 "0.5" "0.2" 4 500, OF ht _ _ _ _ _ _ _ _ bh mv cap]
  obtain r2 where "wetted_area_from_fill_volume (Str ''Vertical'') (Str ''Hemispherical'')
      (PyFloat 5) (PyFloat 2) (PyFloat 0) (PyFloat 0.5) (PyFloat 0.2) (PyFloat 4) 500 = Inr r2"
    by auto
  from traced_returns [OF this] obtain c2 where
    t2: "wetted_area_from_fill_volume_traced (Str ''Vertical'') (Str ''Hemispherical'')
      (PyFloat 5) (PyFloat 2) (PyFloat 0) (PyFloat 0.5) (PyFloat 0.2) (PyFloat 4) 500
        = Inr (r2, c2)" by blast
  from wetted_area_from_fill_volume_figures [OF t2] bh mv in_shell
  have lh2: "liquid_height_m r2 = 1 + (4 - V) / pi"
    and k2: "c2 = [] \<and> liquid_height_exposed_m r2 = 0 \<and> wetted_area_m2 r2 = 0"
    by auto
  have second: "\<exists>r. wetted_area_from_fill_volume_traced (Str ''Vertical'') (Str ''Hemispherical'')
           (PyFloat 5) (PyFloat 2) (PyFloat 0) (PyFloat 0.5) (PyFloat 0.2) (PyFloat 4) 500
          = Inr (r, [])
        \<and> 1 < liquid_height_m r
        \<and> liquid_height_exposed_m r = 0 \<and> wetted_area_m2 r = 0"
    using t2 k2 q by (intro exI [of _ r2]) (simp add: lh2)
  from first second show ?thesis by blast
qed

text \<open>
  Claim C9. For every head object, every shell height and every numeric \<open>H < 0\<close>,
  \<open>wetted_area_up_to_height\<close> returns \<open>0\<close> and raises nothing.
\<close>

theorem wetted_area_up_to_height_negative:
  assumes "H < 0"
  shows "wetted_area_up_to_height (PyFloat H) (Some head) shell_height steps = Inr 0"
  using assms by (simp add: wetted_area_up_to_height_def)

theorem wetted_area_up_to_height_negative_witness:
  "wetted_area_up_to_height (PyFloat (- 1))
     (Some (HemisphericalHead \<lparr>hs_diameter = 2, hs_thickness = 0, hs_radius = 1,
                                head_depth = 1, hs_h1 = 0, hs_h2 = 1\<rparr>))
     (PyFloat 3) 500 = Inr 0"
  using wetted_area_up_to_height_negative [of "- 1"] by simp

section \<open>Head volume: auxiliary facts\<close>

lemma volume_up_to_at_h1: "volume_up_to head (head_h1 head) 500 = Inr 0"
  by (simp add: volume_up_to_500)

text \<open>A left Riemann sum of a non-negative, non-decreasing integrand grows with the upper limit.\<close>

lemma volume_up_to_mono_on:
  assumes lo: "head_h1 head \<le> h" and le: "h \<le> h'"
    and mono: "\<And>x y. head_h1 head \<le> x \<Longrightarrow> x \<le> y \<Longrightarrow> y \<le> h' \<Longrightarrow>
                 area_at_height head x \<le> area_at_height head y"
  shows "\<exists>v v'. volume_up_to head h 500 = Inr v \<and> volume_up_to head h' 500 = Inr v' \<and> v \<le> v'"
proof -
  let ?a = "head_h1 head"
  let ?f = "\<lambda>z (i::nat). area_at_height head (?a + real i * ((z - ?a) / 500)) * ((z - ?a) / 500)"
  have "?f h i \<le> ?f h' i" if "i < 500" for i
  proof (rule mult_mono)
    have d: "0 \<le> (h - ?a) / 500" "(h - ?a) / 500 \<le> (h' - ?a) / 500" using lo le by simp_all
    show "(h - ?a) / 500 \<le> (h' - ?a) / 500" by (rule d(2))
    show "0 \<le> (h - ?a) / 500" by (rule d(1))
    show "0 \<le> area_at_height head (?a + real i * ((h' - ?a) / 500))"
      by (rule area_at_height_nonneg)
    have x0: "?a \<le> ?a + real i * ((h - ?a) / 500)" using d(1) by simp
    have xy: "?a + real i * ((h - ?a) / 500) \<le> ?a + real i * ((h' - ?a) / 500)"
      using d(2) by (simp add: mult_left_mono)
    have "real i * ((h' - ?a) / 500) \<le> 500 * ((h' - ?a) / 500)"
      using that lo le by (intro mult_right_mono) simp_all
    then have yh: "?a + real i * ((h' - ?a) / 500) \<le> h'" by simp
    show "area_at_height head (?a + real i * ((h - ?a) / 500))
            \<le> area_at_height head (?a + real i * ((h' - ?a) / 500))"
      by (rule mono [OF x0 xy yh])
  qed
  then have "(\<Sum>i<500. ?f h i) \<le> (\<Sum>i<500. ?f h' i)"
    by (intro sum_mono) simp
  then show ?thesis by (simp add: volume_up_to_500)
qed

lemma sqrt_max_mono: "a \<le> b \<Longrightarrow> sqrt (max a 0) \<le> sqrt (max b 0)"
  by (intro real_sqrt_le_mono) simp

lemma sq_dist_antimono:
  fixes c :: real
  assumes "x \<le> y" and "y \<le> c"
  shows "(y - c)\<^sup>2 \<le> (x - c)\<^sup>2"
proof -
  have "(c - y)\<^sup>2 \<le> (c - x)\<^sup>2" using assms by (intro power_mono) simp_all
  then show ?thesis by (simp add: power2_commute)
qed

lemma hemisphere_area_mono:
  assumes R: "0 \<le> hs_radius s" and h2: "hs_h2 s = hs_radius s" and xy: "x \<le> y"
  shows "area_at_height (HemisphericalHead s) x \<le> area_at_height (HemisphericalHead s) y"
proof -
  let ?R = "hs_radius s"
  have r: "radius_at_height (HemisphericalHead s) x \<le> radius_at_height (HemisphericalHead s) y"
  proof (cases "y \<le> ?R")
    case True
    have "(y - ?R)\<^sup>2 \<le> (x - ?R)\<^sup>2" using xy True by (rule sq_dist_antimono)
    then have "?R\<^sup>2 - (?R - x)\<^sup>2 \<le> ?R\<^sup>2 - (?R - y)\<^sup>2" by (simp add: power2_commute)
    then have "sqrt (max (?R\<^sup>2 - (?R - x)\<^sup>2) 0) \<le> sqrt (max (?R\<^sup>2 - (?R - y)\<^sup>2) 0)"
      by (rule sqrt_max_mono)
    moreover have "x \<le> hs_h2 s" "y \<le> hs_h2 s" using True xy h2 by simp_all
    ultimately show ?thesis by (simp only: radius_at_height.simps Let_def if_True)
  next
    case False
    then have "radius_at_height (HemisphericalHead s) y = ?R" using h2 by simp
    with hemisphere_radius_at_height_le(1) [OF R, of x] show ?thesis by simp
  qed
  have "(radius_at_height (HemisphericalHead s) x)\<^sup>2 \<le> (radius_at_height (HemisphericalHead s) y)\<^sup>2"
    using r hemisphere_radius_at_height_le(2) [OF R] by (intro power_mono)
  then show ?thesis by (simp add: area_at_height_def Let_def)
qed

text \<open>
  The hemispherical head, whose radius is continuous and non-decreasing in the height:
  its \<open>volume_up_to\<close> is non-decreasing on all heights from \<open>h1\<close> on.
\<close>

lemma hemispherical_volume_monotone:
  assumes "new_HemisphericalHead (PyFloat d) (PyFloat t) = Inr head"
    and lo: "head_h1 head \<le> h" and le: "h \<le> h'"
  shows "\<exists>v v'. volume_up_to head h 500 = Inr v \<and> volume_up_to head h' 500 = Inr v' \<and> v \<le> v'"
proof -
  from assms(1) obtain p where v: "validate_head_dimensions (PyFloat d) (PyFloat t) = Inr p"
    by (auto simp: new_HemisphericalHead_def dest!: and_then_eq_Inr)
  then have p: "p = (d, t)" and t: "0 \<le> t" "t < d / 2"
    by (auto simp: validate_head_dimensions_def split: if_splits)
  from assms(1) v p have hemi: "head = HemisphericalHead
                     \<lparr>hs_diameter = d, hs_thickness = t, hs_radius = d / 2 - t,
                      head_depth = d / 2 - t, hs_h1 = 0, hs_h2 = d / 2 - t\<rparr>"
    by (auto simp: new_HemisphericalHead_def Let_def)
  show ?thesis
  proof (rule volume_up_to_mono_on [OF lo le])
    fix x y :: real assume "x \<le> y"
    then show "area_at_height head x \<le> area_at_height head y"
      unfolding hemi using t by (intro hemisphere_area_mono) simp_all
  qed
qed

text \<open>
  A thin-walled ASME F&D head: external diameter 1 m, wall 10 mm. Its breakpoints are
  \<open>h2 = 1 - \<surd>(1725/2209)\<close> and \<open>h3 = 1 - \<surd>(69/100)\<close>.
\<close>

lemma sqrt_bounds_crown: "883 / 1000 < sqrt (1725 / 2209)" "sqrt (1725 / 2209) < 89 / 100"
  by (intro real_less_rsqrt real_less_lsqrt; simp add: power2_eq_square)+

lemma sqrt_bounds_knuckle: "82 / 100 < sqrt (69 / 100)" "sqrt (69 / 100) < 831 / 1000"
  by (intro real_less_rsqrt real_less_lsqrt; simp add: power2_eq_square)+

lemma thin_head_fields:
  "h1 thin_wall_example = 0"
  "h2 thin_wall_example = 1 - sqrt (1725 / 2209)"
  "h3 thin_wall_example = 1 - sqrt (69 / 100)"
  "crown_radius thin_wall_example = 0.99"
  "knuckle_radius thin_wall_example = 0.05"
  "radius thin_wall_example = 0.49"
  "c_height_offset thin_wall_example = 1"
  "c_radius_offset thin_wall_example = 0"
  "k_height_offset thin_wall_example = 1 - sqrt (69 / 100)"
  "k_radius_offset thin_wall_example = 0.44"
proof -
  have a: "(22 / 47 :: real)\<^sup>2 = 484 / 2209" by (simp add: power2_eq_square)
  have c: "cos (arcsin (22 / 47 :: real)) = sqrt (1725 / 2209)"
    by (subst cos_arcsin) (simp_all add: a)
  have s: "((47 / 50 :: real))\<^sup>2 - (11 / 25)\<^sup>2 = 69 / 100" by (simp add: power2_eq_square)
  show "h1 thin_wall_example = 0"
    "h2 thin_wall_example = 1 - sqrt (1725 / 2209)"
    "h3 thin_wall_example = 1 - sqrt (69 / 100)"
    "crown_radius thin_wall_example = 0.99"
    "knuckle_radius thin_wall_example = 0.05"
    "radius thin_wall_example = 0.49"
    "c_height_offset thin_wall_example = 1"
    "c_radius_offset thin_wall_example = 0"
    "k_height_offset thin_wall_example = 1 - sqrt (69 / 100)"
    "k_radius_offset thin_wall_example = 0.44"
    by (simp_all add: thin_wall_example_def post_init_def Let_def c s)
qed

lemma thin_head_area_crown_top:
  "(torispherical_radius_at_height thin_wall_example (1 - sqrt (1725 / 2209)))\<^sup>2
     = 0.9801 - 1725 / 2209"
proof -
  have "torispherical_radius_at_height thin_wall_example (1 - sqrt (1725 / 2209))
      = sqrt (max (0.99\<^sup>2 - (1 - sqrt (1725 / 2209) - 1)\<^sup>2) 0)"
    by (simp add: torispherical_radius_at_height_def thin_head_fields Let_def)
  also have "(1 - sqrt (1725 / 2209) - 1)\<^sup>2 = (1725 / 2209 :: real)"
    by (simp add: power2_eq_square)
  also have "max (0.99\<^sup>2 - 1725 / 2209) 0 = (0.9801 - 1725 / 2209 :: real)"
    by (simp add: power2_eq_square)
  finally show ?thesis by simp
qed

lemma thin_head_radius_knuckle_foot:
  assumes "1 - sqrt (1725 / 2209) < z" and "z \<le> 1 - sqrt (69 / 100) - 1 / 20"
  shows "torispherical_radius_at_height thin_wall_example z = 0.44"
proof -
  let ?H = "thin_wall_example"
  have above: "\<not> z \<le> h2 ?H" using assms(1) by (simp add: thin_head_fields)
  have "z \<le> 1 - sqrt (69 / 100)" using assms(2) by linarith
  then have below: "z \<le> h3 ?H" by (simp only: thin_head_fields)
  have "1 / 20 \<le> (1 - sqrt (69 / 100)) - z" using assms(2) by linarith
  then have "(1 / 20)\<^sup>2 \<le> ((1 - sqrt (69 / 100)) - z)\<^sup>2" by (rule power_mono) simp
  then have "(knuckle_radius ?H)\<^sup>2 - (z - k_height_offset ?H)\<^sup>2 \<le> 0"
    by (simp add: power2_commute thin_head_fields)
  then have "max ((knuckle_radius ?H)\<^sup>2 - (z - k_height_offset ?H)\<^sup>2) 0 = 0" by simp
  then have "torispherical_radius_at_height ?H z = k_radius_offset ?H"
    using above below by (simp add: torispherical_radius_at_height_def Let_def)
  then show ?thesis by (simp add: thin_head_fields)
qed

lemma thin_head_crown_area:
  assumes "z \<le> 1 - sqrt (1725 / 2209)"
  shows "area_at_height (ASMEFDHead thin_wall_example) z
           = pi * max (9801 / 10000 - (z - 1)\<^sup>2) 0"
proof -
  let ?H = "thin_wall_example"
  have le: "z \<le> h2 ?H" using assms by (simp only: thin_head_fields)
  have cr: "(0.99::real)\<^sup>2 = 9801 / 10000"
    by (simp add: power2_eq_square)
  have "torispherical_radius_at_height ?H z
          = sqrt (max ((crown_radius ?H)\<^sup>2 - (z - c_height_offset ?H)\<^sup>2) 0)
            + c_radius_offset ?H"
    using le by (simp add: torispherical_radius_at_height_def Let_def)
  also have "\<dots> = sqrt (max (9801 / 10000 - (z - 1)\<^sup>2) 0)"
    by (simp only: thin_head_fields add_0_right cr)
  finally have "(torispherical_radius_at_height ?H z)\<^sup>2 = max (9801 / 10000 - (z - 1)\<^sup>2) 0"
    by (simp only: real_sqrt_pow2 max.cobounded2)
  then show ?thesis by (simp only: area_at_height_def Let_def radius_at_height.simps)
qed

lemma crown_area_growth:
  fixes z z' :: real
  assumes "0 \<le> z" and "z \<le> z'" and "z' - z \<le> k"
  shows "max (9801 / 10000 - (z' - 1)\<^sup>2) 0 \<le> max (9801 / 10000 - (z - 1)\<^sup>2) 0 + 2 * k"
proof -
  have "(z - 1)\<^sup>2 - (z' - 1)\<^sup>2 = (z' - z) * (2 - z - z')"
    by (simp add: power2_eq_square algebra_simps)
  also have "\<dots> \<le> (z' - z) * 2"
    using assms(1,2) by (intro mult_left_mono) simp_all
  also have "\<dots> \<le> 2 * k" using assms(3) by simp
  finally have "(9801 / 10000 - (z' - 1)\<^sup>2) \<le> (9801 / 10000 - (z - 1)\<^sup>2) + 2 * k"
    by simp
  moreover have "0 \<le> k" using assms(2,3) by linarith
  ultimately show ?thesis by (simp add: max_def)
qed

lemma crown_area_bound:
  fixes z :: real
  assumes "z \<le> 117 / 1000"
  shows "max (9801 / 10000 - (z - 1)\<^sup>2) 0 \<le> 201 / 1000"
proof -
  have "883 / 1000 \<le> 1 - z" using assms by simp
  then have "(883 / 1000)\<^sup>2 \<le> (1 - z)\<^sup>2" by (rule power_mono) simp
  moreover have "(883 / 1000 :: real)\<^sup>2 = 779689 / 1000000" by (simp add: power2_eq_square)
  moreover have "(1 - z)\<^sup>2 = (z - 1)\<^sup>2" by (rule power2_commute)
  ultimately have "779689 / 1000000 \<le> (z - 1)\<^sup>2" by (simp only:)
  then show ?thesis by (simp only: max_def split: if_splits) linarith
qed

lemma sum_last_500:
  fixes f :: "nat \<Rightarrow> real"
  shows "(\<Sum>i<500. f i) = (\<Sum>i<499. f i) + f 499"
proof -
  have "(500::nat) = Suc 499" by simp
  then show ?thesis by (simp only: sum.lessThan_Suc)
qed

section \<open>Head volume: results\<close>

text \<open>
  Claim C5 says that \<open>volume_up_to\<close> is zero at \<open>h1\<close> and non-decreasing in the height
  from \<open>h1\<close> on, for all three head variants. That is what the hemispherical head does
  (\<open>hemispherical_volume_monotone\<close>), and \<open>volume_up_to h1 = 0\<close> holds for every head
  (\<open>volume_up_to_at_h1\<close>), but the ASME F&D head breaks the monotonicity inside the
  head. For diameter 1 m and wall 10 mm the internal crown arc gives the radius
  \<open>\<surd>(0.9801 - 1725/2209)\<close>, about 0.4463, at the breakpoint \<open>h2\<close>, and the internal
  knuckle arc gives \<open>0.44\<close> just above it: the breakpoints and arc centres are those of
  the external surface. With \<open>h = 500 h2 / 499\<close> the last sample point of the left
  Riemann sum is at \<open>h2\<close>; raising \<open>h\<close> by one part in 100000 moves that sample onto the
  knuckle, and the volume up to the higher height is strictly smaller, although both
  heights are below \<open>h3\<close>.
\<close>

theorem volume_up_to_drops_inside_head:
  "\<exists>v v'. new_ASMEFDHead (PyFloat 1) (PyFloat 0.01) = Inr (ASMEFDHead thin_wall_example)
     \<and> head_h1 (ASMEFDHead thin_wall_example) \<le> 500 * (h2 thin_wall_example / 499)
     \<and> 500 * (h2 thin_wall_example / 499)
           \<le> 500 * (100001 / 100000 * (h2 thin_wall_example / 499))
     \<and> 500 * (100001 / 100000 * (h2 thin_wall_example / 499))
           \<le> getattr_h3 (ASMEFDHead thin_wall_example)
     \<and> volume_up_to (ASMEFDHead thin_wall_example)
           (500 * (h2 thin_wall_example / 499)) 500 = Inr v
     \<and> volume_up_to (ASMEFDHead thin_wall_example)
           (500 * (100001 / 100000 * (h2 thin_wall_example / 499))) 500 = Inr v'
     \<and> v' < v"
proof -
  let ?H = "thin_wall_example"
  let ?hd = "ASMEFDHead thin_wall_example"
  define x where "x = 1 - sqrt (1725 / 2209)"
  define d where "d = x / 499"
  define d' where "d' = 100001 / 100000 * d"
  let ?g = "\<lambda>z::real. max (9801 / 10000 - (z - 1)\<^sup>2) 0"
  define S where "S = (\<Sum>i<499. ?g (real i * d))"
  define S' where "S' = (\<Sum>i<499. ?g (real i * d'))"
  have h2x: "h2 ?H = x" by (simp only: thin_head_fields x_def)
  have x_lo: "11 / 100 < x" and x_hi: "x \<le> 117 / 1000"
    using sqrt_bounds_crown unfolding x_def by linarith+
  have d0: "0 < d" using x_lo unfolding d_def by linarith
  have dd: "d \<le> d'" using d0 unfolding d'_def by linarith
  have top: "499 * d = x" by (simp add: d_def)
  have top': "499 * d' = 100001 / 100000 * x" by (simp add: d'_def d_def)
  \<comment> \<open>the first 499 sample points of both sums lie on the crown arc\<close>
  have below: "real i * d \<le> x" and below': "real i * d' \<le> x"
    and step: "real i * d' - real i * d \<le> 117 / 100000000" if "i < 499" for i
  proof -
    have i: "real i \<le> 498" using that by simp
    have "real i * d \<le> 498 * d" using i d0 by (intro mult_right_mono) simp_all
    also have "498 * d \<le> x" using x_lo unfolding d_def by linarith
    finally show "real i * d \<le> x" .
    have d'0: "0 \<le> d'" using d0 dd by linarith
    have "real i * d' \<le> 498 * d'" using i d'0 by (intro mult_right_mono) simp_all
    also have "498 * d' \<le> x" using x_lo unfolding d'_def d_def by linarith
    finally show "real i * d' \<le> x" .
    have "real i * d' - real i * d = real i * (d / 100000)"
      by (simp add: d'_def algebra_simps)
    also have "\<dots> \<le> 498 * (d / 100000)" using i d0 by (intro mult_right_mono) simp_all
    also have "\<dots> \<le> 117 / 100000000" using x_hi unfolding d_def by linarith
    finally show "real i * d' - real i * d \<le> 117 / 100000000" .
  qed
  have grow: "?g (real i * d') \<le> ?g (real i * d) + 2 * (117 / 100000000)" if "i < 499" for i
  proof (rule crown_area_growth)
    show "0 \<le> real i * d" using d0 by simp
    show "real i * d \<le> real i * d'" using dd by (intro mult_left_mono) simp_all
    show "real i * d' - real i * d \<le> 117 / 100000000" by (rule step [OF that])
  qed
  have bound: "?g (real i * d) \<le> 201 / 1000" if "i < 499" for i
  proof (rule crown_area_bound)
    from below [OF that] x_hi show "real i * d \<le> 117 / 1000" by linarith
  qed
  have "S' \<le> (\<Sum>i<499. ?g (real i * d) + 2 * (117 / 100000000))"
    unfolding S'_def by (intro sum_mono grow) simp
  also have "\<dots> = S + 499 * (2 * (117 / 100000000))"
    by (simp add: S_def sum.distrib)
  finally have S'S: "S' \<le> S + 499 * (2 * (117 / 100000000))" .
  have "S \<le> (\<Sum>i<(499::nat). (201 / 1000 :: real))"
    unfolding S_def by (intro sum_mono bound) simp
  then have Sb: "S \<le> 499 * (201 / 1000)" by simp
  have num: "100001 / 100000 * (S' + 121 / 625) < S + (9801 / 10000 - 1725 / 2209)"
    using S'S Sb by argo
  \<comment> \<open>the two volumes\<close>
  have crown: "area_at_height ?hd (real i * d) = pi * ?g (real i * d)"
    and crown': "area_at_height ?hd (real i * d') = pi * ?g (real i * d')" if "i < 499" for i
    using below [OF that] below' [OF that] unfolding x_def
    by (simp_all only: thin_head_crown_area)
  have last: "area_at_height ?hd (499 * d) = pi * (9801 / 10000 - 1725 / 2209)"
    unfolding top x_def
    by (simp only: area_at_height_def Let_def radius_at_height.simps thin_head_area_crown_top)
       simp
  have foot: "torispherical_radius_at_height ?H (499 * d') = 0.44"
  proof (rule thin_head_radius_knuckle_foot)
    show "1 - sqrt (1725 / 2209) < 499 * d'"
      using x_lo unfolding top' x_def [symmetric] by linarith
    show "499 * d' \<le> 1 - sqrt (69 / 100) - 1 / 20"
      using x_hi sqrt_bounds_knuckle(2) unfolding top' by linarith
  qed
  have last': "area_at_height ?hd (499 * d') = pi * (121 / 625)"
    unfolding area_at_height_def Let_def radius_at_height.simps foot
    by (simp add: power2_eq_square)
  have sumS: "(\<Sum>i<499. area_at_height ?hd (real i * d) * d) = pi * d * S"
  proof -
    have "(\<Sum>i<499. area_at_height ?hd (real i * d) * d) = (\<Sum>i<499. pi * ?g (real i * d) * d)"
      by (rule sum.cong) (simp_all only: crown lessThan_iff)
    also have "\<dots> = pi * d * S"
      unfolding S_def by (simp add: sum_distrib_left mult.assoc mult.left_commute mult.commute)
    finally show ?thesis .
  qed
  have sumS': "(\<Sum>i<499. area_at_height ?hd (real i * d') * d') = pi * d' * S'"
  proof -
    have "(\<Sum>i<499. area_at_height ?hd (real i * d') * d')
            = (\<Sum>i<499. pi * ?g (real i * d') * d')"
      by (rule sum.cong) (simp_all only: crown' lessThan_iff)
    also have "\<dots> = pi * d' * S'"
      unfolding S'_def by (simp add: sum_distrib_left mult.assoc mult.left_commute mult.commute)
    finally show ?thesis .
  qed
  have h1: "head_h1 ?hd = 0" by (simp add: thin_head_fields)
  have V: "volume_up_to ?hd (500 * d) 500 = Inr (pi * d * S + pi * (9801 / 10000 - 1725 / 2209) * d)"
  proof -
    have "volume_up_to ?hd (500 * d) 500 = Inr (\<Sum>i<500. area_at_height ?hd (real i * d) * d)"
      by (simp add: volume_up_to_500 thin_head_fields)
    also have "(\<Sum>i<500. area_at_height ?hd (real i * d) * d)
                 = (\<Sum>i<499. area_at_height ?hd (real i * d) * d)
                   + area_at_height ?hd (real (499::nat) * d) * d"
      by (rule sum_last_500)
    also have "\<dots> = pi * d * S + pi * (9801 / 10000 - 1725 / 2209) * d"
      using last by (simp only: sumS of_nat_numeral)
    finally show ?thesis .
  qed
  have V': "volume_up_to ?hd (500 * d') 500 = Inr (pi * d' * S' + pi * (121 / 625) * d')"
  proof -
    have "volume_up_to ?hd (500 * d') 500 = Inr (\<Sum>i<500. area_at_height ?hd (real i * d') * d')"
      by (simp add: volume_up_to_500 thin_head_fields)
    also have "(\<Sum>i<500. area_at_height ?hd (real i * d') * d')
                 = (\<Sum>i<499. area_at_height ?hd (real i * d') * d')
                   + area_at_height ?hd (real (499::nat) * d') * d'"
      by (rule sum_last_500)
    also have "\<dots> = pi * d' * S' + pi * (121 / 625) * d'"
      using last' by (simp only: sumS' of_nat_numeral)
    finally show ?thesis .
  qed
  have "0 < pi * d" using d0 by simp
  from mult_strict_left_mono [OF num this]
  have less: "pi * d' * S' + pi * (121 / 625) * d'
                < pi * d * S + pi * (9801 / 10000 - 1725 / 2209) * d"
    by (simp add: d'_def algebra_simps)
  have c1: "new_ASMEFDHead (PyFloat 1) (PyFloat 0.01) = Inr ?hd"
    by (simp add: new_ASMEFDHead_def validate_head_dimensions_def thin_wall_example_def)
  have c2: "head_h1 ?hd \<le> 500 * d" using d0 h1 by simp
  have c3: "500 * d \<le> 500 * d'" using dd by simp
  have "500 * d' \<le> 1 - sqrt (69 / 100)"
    using x_hi sqrt_bounds_knuckle(2) unfolding d'_def d_def by linarith
  then have c4: "500 * d' \<le> getattr_h3 ?hd" by (simp only: getattr_h3.simps thin_head_fields)
  show ?thesis
    unfolding h2x d_def [symmetric] d'_def [symmetric]
    using c1 c2 c3 c4 V V' less by blast
qed

end
